theory Spec2Isabelle
  imports Complex_Main "HOL-Library.Word"
begin

section \<open>JavaScript values\<close>

text \<open>
  The widget is JavaScript, so the data of the model is JavaScript data.
  A string is its sequence of UTF-16 code units (what \<^verbatim>\<open>length\<close> counts and
  what a regular expression without the \<^verbatim>\<open>u\<close> flag sees). A number is a finite
  value, NaN or one of the infinities; finite values are taken as exact
  rationals, so the binary rounding of a double is idealised and there is a
  single zero.
\<close>

type_synonym jsstring = "16 word list"

abbreviation str :: "string \<Rightarrow> jsstring" where
  "str s \<equiv> map of_char s"

datatype jsnum = Finite rat | NaN | PosInfinity | NegInfinity

datatype jsval =
    JUndefined
  | JNull
  | JBool bool
  | JNum jsnum
  | JStr jsstring
  | JArr "jsval list"
  | JObj "(jsstring \<times> jsval) list"

text \<open>ToBoolean: what \<^verbatim>\<open>!x\<close> and \<^verbatim>\<open>x || y\<close> test.\<close>

fun truthy_num :: "jsnum \<Rightarrow> bool" where
  "truthy_num (Finite q) = (q \<noteq> 0)"
| "truthy_num NaN = False"
| "truthy_num PosInfinity = True"
| "truthy_num NegInfinity = True"

fun truthy :: "jsval \<Rightarrow> bool" where
  "truthy JUndefined = False"
| "truthy JNull = False"
| "truthy (JBool b) = b"
| "truthy (JNum n) = truthy_num n"
| "truthy (JStr s) = (s \<noteq> [])"
| "truthy (JArr xs) = True"
| "truthy (JObj kvs) = True"

fun typeof :: "jsval \<Rightarrow> jsstring" where
  "typeof JUndefined = str ''undefined''"
| "typeof JNull = str ''object''"
| "typeof (JBool b) = str ''boolean''"
| "typeof (JNum n) = str ''number''"
| "typeof (JStr s) = str ''string''"
| "typeof (JArr xs) = str ''object''"
| "typeof (JObj kvs) = str ''object''"

text \<open>\<^verbatim>\<open>a || b\<close> on values.\<close>

definition js_or :: "jsval \<Rightarrow> jsval \<Rightarrow> jsval" where
  "js_or a b = (if truthy a then a else b)"

text \<open>
  A thrown value is always an \<^verbatim>\<open>Error\<close> object here; the code reads its
  \<^verbatim>\<open>name\<close> and its \<^verbatim>\<open>message\<close>. A function that may throw returns a sum,
  \<open>Inl\<close> the thrown error.
\<close>

datatype js_error = JsError (err_name: jsstring) (err_message: jsstring)

definition Error :: "jsstring \<Rightarrow> js_error" where
  "Error msg = JsError (str ''Error'') msg"

definition TypeError :: "jsstring \<Rightarrow> js_error" where
  "TypeError msg = JsError (str ''TypeError'') msg"

subsection \<open>String operations\<close>

text \<open>
  \<^verbatim>\<open>String.prototype.trim\<close> strips the ECMAScript WhiteSpace and
  LineTerminator code points from both ends.
\<close>

definition is_whitespace :: "16 word \<Rightarrow> bool" where
  "is_whitespace c \<longleftrightarrow>
     c \<in> {0x0009, 0x000A, 0x000B, 0x000C, 0x000D, 0x0020, 0x00A0, 0x1680,
          0x2000, 0x2001, 0x2002, 0x2003, 0x2004, 0x2005, 0x2006, 0x2007,
          0x2008, 0x2009, 0x200A, 0x2028, 0x2029, 0x202F, 0x205F, 0x3000,
          0xFEFF}"

definition trim :: "jsstring \<Rightarrow> jsstring" where
  "trim s = rev (dropWhile is_whitespace (rev (dropWhile is_whitespace s)))"

fun is_prefix :: "'a list \<Rightarrow> 'a list \<Rightarrow> bool" where
  "is_prefix [] ys = True"
| "is_prefix (x # xs) [] = False"
| "is_prefix (x # xs) (y # ys) = (x = y \<and> is_prefix xs ys)"

text \<open>\<^verbatim>\<open>s.includes(sub)\<close>: \<open>sub\<close> occurs in \<open>s\<close> as a contiguous run.\<close>

fun js_includes :: "'a list \<Rightarrow> 'a list \<Rightarrow> bool" where
  "js_includes [] sub = (sub = [])"
| "js_includes (c # cs) sub = (is_prefix sub (c # cs) \<or> js_includes cs sub)"

section \<open>NetworkUtils.validateCityName\<close>

text \<open>The character class of the regular expression \<^verbatim>\<open>/[<>\"'&]/\<close>.\<close>

definition dangerousChars :: "16 word set" where
  "dangerousChars = {of_char CHR ''<'', of_char CHR ''>'', of_char CHR 0x22,
                     of_char CHR 0x27, of_char CHR ''&''}"

text \<open>\<^verbatim>\<open>dangerousChars.test(s)\<close>: some code unit of \<open>s\<close> is in the class.\<close>

fun regex_test :: "16 word set \<Rightarrow> jsstring \<Rightarrow> bool" where
  "regex_test cls [] = False"
| "regex_test cls (c # cs) = (c \<in> cls \<or> regex_test cls cs)"

definition validateCityName :: "jsval \<Rightarrow> js_error + jsstring" where
  "validateCityName cityName =
     (if \<not> truthy cityName \<or> typeof cityName \<noteq> str ''string'' then
        Inl (Error (str ''City name is required''))
      else
        (case cityName of
           JStr s \<Rightarrow>
             (let trimmed = trim s in
              if length trimmed = 0 then
                Inl (Error (str ''City name cannot be empty''))
              else if length trimmed < 2 then
                Inl (Error (str ''City name must be at least 2 characters long''))
              else if length trimmed > 100 then
                Inl (Error (str ''City name is too long (max 100 characters)''))
              else if regex_test dangerousChars trimmed then
                Inl (Error (str ''City name contains invalid characters''))
              else Inr trimmed)
         | _ \<Rightarrow> Inl (TypeError (str ''cityName.trim is not a function''))))"

section \<open>The network\<close>

text \<open>
  A request is the endpoint and its query parameters; the text of the query
  string (percent-escapes, number formatting) is not modelled.
  \<^verbatim>\<open>encodeURIComponent\<close> throws a \<^verbatim>\<open>URIError\<close> on a string with a lone
  surrogate and is otherwise kept as the identity on the parameter.
\<close>

datatype url = Url jsstring "(jsstring \<times> jsval) list"

fun well_formed_utf16 :: "jsstring \<Rightarrow> bool" where
  "well_formed_utf16 [] = True"
| "well_formed_utf16 [c] = (\<not> (0xD800 \<le> c \<and> c \<le> 0xDFFF))"
| "well_formed_utf16 (c # d # cs) =
     (if 0xD800 \<le> c \<and> c \<le> 0xDBFF then
        0xDC00 \<le> d \<and> d \<le> 0xDFFF \<and> well_formed_utf16 cs
      else \<not> (0xDC00 \<le> c \<and> c \<le> 0xDFFF) \<and> well_formed_utf16 (d # cs))"

definition encodeURIComponent :: "jsstring \<Rightarrow> js_error + jsstring" where
  "encodeURIComponent s =
     (if well_formed_utf16 s then Inr s
      else Inl (JsError (str ''URIError'') (str ''URI malformed'')))"

text \<open>
  A response carries its status line and what \<^verbatim>\<open>response.json()\<close> gives:
  the parsed body, or the error it rejects with.
\<close>

record response =
  status :: nat
  statusText :: jsstring
  json :: "js_error + jsval"

definition ok :: "response \<Rightarrow> bool" where
  "ok r \<longleftrightarrow> 200 \<le> status r \<and> status r \<le> 299"

text \<open>
  One call of \<^verbatim>\<open>fetch\<close> either resolves with a response or rejects; the abort
  fired by the timeout timer is the rejection named \<^verbatim>\<open>AbortError\<close>, a failure
  of the connection the one named \<^verbatim>\<open>TypeError\<close>. The network is what decides
  the outcome of the attempt numbered \<open>k\<close> (from 1) at a request.
\<close>

datatype fetch_outcome = Resolves response | Rejects js_error

type_synonym network = "url \<Rightarrow> nat \<Rightarrow> fetch_outcome"

text \<open>What a call does to the outside, in order.\<close>

datatype event = Fetch url | Sleep nat | Warn jsstring js_error

fun is_Fetch :: "event \<Rightarrow> bool" where
  "is_Fetch (Fetch u) = True"
| "is_Fetch (Sleep ms) = False"
| "is_Fetch (Warn s e) = False"

text \<open>Decimal digits of a number inside a template string.\<close>

fun show_nat :: "nat \<Rightarrow> jsstring" where
  "show_nat n =
     (if n < 10 then [of_nat (48 + n)]
      else show_nat (n div 10) @ [of_nat (48 + n mod 10)])"

declare show_nat.simps [simp del]

section \<open>NetworkUtils.fetchWithRetry\<close>

text \<open>The body of the \<^verbatim>\<open>try\<close> block of one attempt.\<close>

definition attempt_fetch :: "fetch_outcome \<Rightarrow> js_error + response" where
  "attempt_fetch outcome =
     (case outcome of
        Rejects error \<Rightarrow> Inl error
      | Resolves response \<Rightarrow>
          if \<not> ok response then
            Inl (Error (str ''HTTP '' @ show_nat (status response) @ str '': ''
                        @ statusText response))
          else Inr response)"

text \<open>What the \<^verbatim>\<open>catch\<close> block throws on the last attempt.\<close>

definition final_error :: "js_error \<Rightarrow> js_error" where
  "final_error error =
     (if err_name error = str ''AbortError'' then
        Error (str ''Request timeout - please check your internet connection and try again'')
      else if err_name error = str ''TypeError'' then
        Error (str ''Network connection failed - please check your internet connection'')
      else error)"

text \<open>
  The \<^verbatim>\<open>for\<close> loop from the attempt numbered \<open>attempt\<close>. Falling out of the
  loop returns \<^verbatim>\<open>undefined\<close>, here \<open>Inr None\<close>.
\<close>

function fetchWithRetry_from ::
  "network \<Rightarrow> url \<Rightarrow> nat \<Rightarrow> nat \<Rightarrow> (js_error + response option) \<times> event list" where
  "fetchWithRetry_from net u maxRetries attempt =
     (if attempt \<le> maxRetries then
        (case attempt_fetch (net u attempt) of
           Inr response \<Rightarrow> (Inr (Some response), [Fetch u])
         | Inl error \<Rightarrow>
             if attempt = maxRetries then (Inl (final_error error), [Fetch u])
             else
               (let delay = 2 ^ (attempt - 1) * 1000;
                    (r, tr) = fetchWithRetry_from net u maxRetries (attempt + 1)
                in (r, Fetch u # Sleep delay # tr)))
      else (Inr None, []))"
  by pat_completeness auto
termination
  by (relation "measure (\<lambda>(net, u, maxRetries, attempt). Suc maxRetries - attempt)") auto

declare fetchWithRetry_from.simps [simp del]

definition fetchWithRetry ::
  "network \<Rightarrow> url \<Rightarrow> nat \<Rightarrow> (js_error + response option) \<times> event list" where
  "fetchWithRetry net u maxRetries = fetchWithRetry_from net u maxRetries 1"

text \<open>
  \<^verbatim>\<open>await response.json()\<close> on what \<^verbatim>\<open>fetchWithRetry\<close> returned.
\<close>

definition response_json :: "response option \<Rightarrow> js_error + jsval" where
  "response_json r =
     (case r of
        None \<Rightarrow> Inl (TypeError (str ''Cannot read properties of undefined (reading 'json')''))
      | Some response \<Rightarrow> json response)"

section \<open>Reading parsed JSON\<close>

text \<open>
  \<^verbatim>\<open>v.k\<close> for the property names the service reads (\<^verbatim>\<open>results\<close>,
  \<^verbatim>\<open>length\<close>, \<^verbatim>\<open>latitude\<close>, \<^verbatim>\<open>longitude\<close>, \<^verbatim>\<open>name\<close>, \<^verbatim>\<open>country\<close>,
  \<^verbatim>\<open>admin1\<close>, \<^verbatim>\<open>current\<close>, \<^verbatim>\<open>daily\<close>, \<^verbatim>\<open>hourly\<close>): none of them is
  inherited from a prototype of a parsed JSON value, except \<^verbatim>\<open>length\<close> on
  arrays and strings. Reading a property of \<^verbatim>\<open>undefined\<close> or \<^verbatim>\<open>null\<close>
  throws a \<^verbatim>\<open>TypeError\<close>; its message is written as V8 words it.
\<close>

definition cannot_read :: "jsstring \<Rightarrow> jsstring \<Rightarrow> js_error" where
  "cannot_read what k =
     TypeError (str ''Cannot read properties of '' @ what @ str '' (reading ''
                @ [0x27] @ k @ [0x27] @ str '')'')"

text \<open>An own property of an object, \<^verbatim>\<open>undefined\<close> when there is none.\<close>

definition obj_field :: "(jsstring \<times> jsval) list \<Rightarrow> jsstring \<Rightarrow> jsval" where
  "obj_field kvs k = (case map_of kvs k of Some v \<Rightarrow> v | None \<Rightarrow> JUndefined)"

fun get_prop :: "jsval \<Rightarrow> jsstring \<Rightarrow> js_error + jsval" where
  "get_prop JUndefined k = Inl (cannot_read (str ''undefined'') k)"
| "get_prop JNull k = Inl (cannot_read (str ''null'') k)"
| "get_prop (JBool b) k = Inr JUndefined"
| "get_prop (JNum n) k = Inr JUndefined"
| "get_prop (JStr s) k =
     Inr (if k = str ''length'' then JNum (Finite (of_nat (length s))) else JUndefined)"
| "get_prop (JArr xs) k =
     Inr (if k = str ''length'' then JNum (Finite (of_nat (length xs))) else JUndefined)"
| "get_prop (JObj kvs) k = Inr (obj_field kvs k)"

text \<open>\<^verbatim>\<open>v[i]\<close> for an index \<open>i\<close>; outside an array it is \<^verbatim>\<open>undefined\<close>.\<close>

fun get_index :: "jsval \<Rightarrow> nat \<Rightarrow> js_error + jsval" where
  "get_index JUndefined i = Inl (cannot_read (str ''undefined'') (show_nat i))"
| "get_index JNull i = Inl (cannot_read (str ''null'') (show_nat i))"
| "get_index (JBool b) i = Inr JUndefined"
| "get_index (JNum n) i = Inr JUndefined"
| "get_index (JStr s) i = Inr (if i < length s then JStr [s ! i] else JUndefined)"
| "get_index (JArr xs) i = Inr (if i < length xs then xs ! i else JUndefined)"
| "get_index (JObj kvs) i = Inr (obj_field kvs (show_nat i))"

text \<open>Sequencing of steps that may throw.\<close>

definition bind_err :: "'e + 'a \<Rightarrow> ('a \<Rightarrow> 'e + 'b) \<Rightarrow> 'e + 'b" where
  "bind_err m f = (case m of Inl e \<Rightarrow> Inl e | Inr x \<Rightarrow> f x)"

text \<open>Comparison of numbers: false as soon as one side is NaN.\<close>

fun js_less :: "jsnum \<Rightarrow> jsnum \<Rightarrow> bool" where
  "js_less NaN y = False"
| "js_less x NaN = False"
| "js_less (Finite a) (Finite b) = (a < b)"
| "js_less (Finite a) PosInfinity = True"
| "js_less (Finite a) NegInfinity = False"
| "js_less PosInfinity y = False"
| "js_less NegInfinity (Finite b) = True"
| "js_less NegInfinity PosInfinity = True"
| "js_less NegInfinity NegInfinity = False"

definition isNaN :: "jsnum \<Rightarrow> bool" where
  "isNaN x \<longleftrightarrow> x = NaN"

text \<open>
  \<^verbatim>\<open>parseFloat(v)\<close> parses the text of \<open>v\<close>. The text of a number reads
  back as that number; what the platform makes of any other value is the
  parameter \<open>pf\<close>.
\<close>

definition parseFloat :: "(jsval \<Rightarrow> jsnum) \<Rightarrow> jsval \<Rightarrow> jsnum" where
  "parseFloat pf v = (case v of JNum n \<Rightarrow> n | _ \<Rightarrow> pf v)"

section \<open>WeatherService\<close>

definition baseURL :: jsstring where
  "baseURL = str ''https://api.open-meteo.com/v1/forecast''"

definition geocodingURL :: jsstring where
  "geocodingURL = str ''https://geocoding-api.open-meteo.com/v1/search''"

text \<open>The geocoding request for a name and a number of results.\<close>

definition geocoding_url :: "jsstring \<Rightarrow> jsstring \<Rightarrow> url" where
  "geocoding_url encoded count =
     Url geocodingURL
       [(str ''name'', JStr encoded), (str ''count'', JStr count),
        (str ''language'', JStr (str ''en'')), (str ''format'', JStr (str ''json''))]"

subsection \<open>getCoordinates\<close>

record location =
  latitude :: jsnum
  longitude :: jsnum
  name :: jsval
  country :: jsval
  admin1 :: jsval

definition no_results_error :: "jsstring \<Rightarrow> js_error" where
  "no_results_error validatedCity =
     Error (str ''No results found for '' @ [0x22] @ validatedCity @ [0x22]
            @ str ''. Please check the spelling or try a different city name.'')"

definition invalid_location_error :: js_error where
  "invalid_location_error = Error (str ''Invalid location data received from server'')"

text \<open>Lines 90 to 107: from the parsed body to the returned object.\<close>

definition location_of_data ::
  "(jsval \<Rightarrow> jsnum) \<Rightarrow> jsstring \<Rightarrow> jsval \<Rightarrow> js_error + location" where
  "location_of_data pf validatedCity data =
     bind_err (get_prop data (str ''results'')) (\<lambda>results.
     bind_err (if \<not> truthy results then Inr True
               else bind_err (get_prop results (str ''length''))
                      (\<lambda>len. Inr (len = JNum (Finite 0)))) (\<lambda>none.
     if none then Inl (no_results_error validatedCity)
     else
     bind_err (get_index results 0) (\<lambda>loc.
     bind_err (get_prop loc (str ''latitude'')) (\<lambda>lat.
     bind_err (if \<not> truthy lat then Inr True
               else bind_err (get_prop loc (str ''longitude'')) (\<lambda>lon.
                    if \<not> truthy lon then Inr True
                    else bind_err (get_prop loc (str ''name''))
                           (\<lambda>nm. Inr (\<not> truthy nm)))) (\<lambda>invalid.
     if invalid then Inl invalid_location_error
     else
     bind_err (get_prop loc (str ''longitude'')) (\<lambda>lon.
     bind_err (get_prop loc (str ''name'')) (\<lambda>nm.
     bind_err (get_prop loc (str ''country'')) (\<lambda>ctry.
     bind_err (get_prop loc (str ''admin1'')) (\<lambda>adm.
     Inr \<lparr> latitude = parseFloat pf lat,
           longitude = parseFloat pf lon,
           name = nm,
           country = js_or ctry (JStr (str ''Unknown'')),
           admin1 = js_or adm JNull \<rparr>)))))))))"

text \<open>The \<^verbatim>\<open>try\<close> block.\<close>

definition getCoordinates_try ::
  "(jsval \<Rightarrow> jsnum) \<Rightarrow> network \<Rightarrow> jsval \<Rightarrow> (js_error + location) \<times> event list" where
  "getCoordinates_try pf net cityName =
     (case validateCityName cityName of
        Inl error \<Rightarrow> (Inl error, [])
      | Inr validatedCity \<Rightarrow>
          (case encodeURIComponent validatedCity of
             Inl error \<Rightarrow> (Inl error, [])
           | Inr encoded \<Rightarrow>
               (let u = geocoding_url encoded (str ''1'');
                    (fetched, tr) = fetchWithRetry net u 3
                in (bind_err fetched (\<lambda>response.
                    bind_err (response_json response) (\<lambda>data.
                    location_of_data pf validatedCity data)), tr))))"

text \<open>The \<^verbatim>\<open>catch\<close> block: two kinds of message pass, the rest is wrapped.\<close>

definition getCoordinates ::
  "(jsval \<Rightarrow> jsnum) \<Rightarrow> network \<Rightarrow> jsval \<Rightarrow> (js_error + location) \<times> event list" where
  "getCoordinates pf net cityName =
     (case getCoordinates_try pf net cityName of
        (Inr loc, tr) \<Rightarrow> (Inr loc, tr)
      | (Inl error, tr) \<Rightarrow>
          if js_includes (err_message error) (str ''No results found'')
             \<or> js_includes (err_message error) (str ''Invalid location'')
          then (Inl error, tr)
          else (Inl (Error (str ''Unable to find location: '' @ err_message error)), tr))"

subsection \<open>getWeatherData\<close>

definition invalid_coordinates_error :: js_error where
  "invalid_coordinates_error = Error (str ''Invalid coordinates provided'')"

definition invalid_latitude_error :: js_error where
  "invalid_latitude_error = Error (str ''Invalid latitude (must be between -90 and 90)'')"

definition invalid_longitude_error :: js_error where
  "invalid_longitude_error = Error (str ''Invalid longitude (must be between -180 and 180)'')"

definition forecast_url :: "jsnum \<Rightarrow> jsnum \<Rightarrow> url" where
  "forecast_url lat lon =
     Url baseURL
       [(str ''latitude'', JNum lat),
        (str ''longitude'', JNum lon),
        (str ''current'', JStr (str ''temperature_2m,relative_humidity_2m,apparent_temperature,weather_code,wind_speed_10m,wind_direction_10m,pressure_msl,visibility'')),
        (str ''daily'', JStr (str ''weather_code,temperature_2m_max,temperature_2m_min,apparent_temperature_max,apparent_temperature_min,precipitation_sum,wind_speed_10m_max'')),
        (str ''hourly'', JStr (str ''temperature_2m,weather_code'')),
        (str ''timezone'', JStr (str ''auto'')),
        (str ''forecast_days'', JNum (Finite 5)),
        (str ''temperature_unit'', JStr (str ''fahrenheit'')),
        (str ''wind_speed_unit'', JStr (str ''mph''))]"

text \<open>Lines 147 to 152: the check of the parsed body.\<close>

definition check_weather_data :: "jsval \<Rightarrow> js_error + jsval" where
  "check_weather_data data =
     bind_err (get_prop data (str ''current'')) (\<lambda>cur.
     bind_err (if \<not> truthy cur then Inr True
               else bind_err (get_prop data (str ''daily'')) (\<lambda>dly.
                    if \<not> truthy dly then Inr True
                    else bind_err (get_prop data (str ''hourly''))
                           (\<lambda>hly. Inr (\<not> truthy hly)))) (\<lambda>invalid.
     if invalid then
       Inl (Error (str ''Invalid weather data format received from server''))
     else Inr data))"

definition getWeatherData_try ::
  "network \<Rightarrow> jsnum \<Rightarrow> jsnum \<Rightarrow> (js_error + jsval) \<times> event list" where
  "getWeatherData_try net lat lon =
     (if \<not> truthy_num lat \<or> \<not> truthy_num lon \<or> isNaN lat \<or> isNaN lon then
        (Inl invalid_coordinates_error, [])
      else if js_less lat (Finite (- 90)) \<or> js_less (Finite 90) lat then
        (Inl invalid_latitude_error, [])
      else if js_less lon (Finite (- 180)) \<or> js_less (Finite 180) lon then
        (Inl invalid_longitude_error, [])
      else
        (let (fetched, tr) = fetchWithRetry net (forecast_url lat lon) 3
         in (bind_err fetched (\<lambda>response.
             bind_err (response_json response) check_weather_data), tr)))"

definition getWeatherData ::
  "network \<Rightarrow> jsnum \<Rightarrow> jsnum \<Rightarrow> (js_error + jsval) \<times> event list" where
  "getWeatherData net lat lon =
     (case getWeatherData_try net lat lon of
        (Inr data, tr) \<Rightarrow> (Inr data, tr)
      | (Inl error, tr) \<Rightarrow>
          if js_includes (err_message error) (str ''Invalid coordinates'')
             \<or> js_includes (err_message error) (str ''Invalid latitude'')
             \<or> js_includes (err_message error) (str ''Invalid longitude'')
          then (Inl error, tr)
          else (Inl (Error (str ''Unable to fetch weather data: '' @ err_message error)), tr))"

subsection \<open>searchCities\<close>

text \<open>
  The \<^verbatim>\<open>try\<close> block. The request carries the query as it was passed, not
  the validated text; the validator accepts strings only, so the last branch
  is never taken.
\<close>

definition searchCities_try :: "network \<Rightarrow> jsval \<Rightarrow> (js_error + jsval) \<times> event list" where
  "searchCities_try net query =
     (case validateCityName query of
        Inl error \<Rightarrow> (Inl error, [])
      | Inr validated \<Rightarrow>
          if \<not> truthy (JStr validated) then (Inr (JArr []), [])
          else
            (case query of
               JStr q \<Rightarrow>
                 (case encodeURIComponent q of
                    Inl error \<Rightarrow> (Inl error, [])
                  | Inr encoded \<Rightarrow>
                      (let u = geocoding_url encoded (str ''5'');
                           (fetched, tr) = fetchWithRetry net u 3
                       in (bind_err fetched (\<lambda>response.
                           bind_err (response_json response) (\<lambda>data.
                           bind_err (get_prop data (str ''results'')) (\<lambda>results.
                           Inr (js_or results (JArr []))))), tr)))
             | _ \<Rightarrow> (Inl (TypeError (str ''query is not a string'')), [])))"

text \<open>The \<^verbatim>\<open>catch\<close> block warns on the console and returns an empty array.\<close>

definition searchCities :: "network \<Rightarrow> jsval \<Rightarrow> (js_error + jsval) \<times> event list" where
  "searchCities net query =
     (case searchCities_try net query of
        (Inr v, tr) \<Rightarrow> (Inr v, tr)
      | (Inl error, tr) \<Rightarrow> (Inr (JArr []), tr @ [Warn (str ''City search failed:'') error]))"

section \<open>WeatherDataProcessor\<close>

text \<open>
  The weather payload is typed as the forecast service documents it: the
  blocks hold parallel arrays of numbers, where JSON \<^verbatim>\<open>null\<close> stands for a
  missing measurement, and an array of timestamps. Reading an array past its
  end gives \<^verbatim>\<open>undefined\<close>.
\<close>

datatype cell = CUndefined | CNull | CNum jsnum

definition cell_at :: "cell list \<Rightarrow> nat \<Rightarrow> cell" where
  "cell_at xs i = (if i < length xs then xs ! i else CUndefined)"

fun ToNumber :: "cell \<Rightarrow> jsnum" where
  "ToNumber CUndefined = NaN"
| "ToNumber CNull = Finite 0"
| "ToNumber (CNum n) = n"

text \<open>
  \<^verbatim>\<open>Math.round\<close>: the closest integer, the larger one of two equally close.
\<close>

fun Math_round :: "jsnum \<Rightarrow> jsnum" where
  "Math_round (Finite q) = Finite (of_int \<lfloor>q + 1 / 2\<rfloor>)"
| "Math_round NaN = NaN"
| "Math_round PosInfinity = PosInfinity"
| "Math_round NegInfinity = NegInfinity"

definition round_cell :: "cell \<Rightarrow> jsnum" where
  "round_cell c = Math_round (ToNumber c)"

text \<open>\<^verbatim>\<open>c || 0\<close> on a cell.\<close>

fun cell_or_zero :: "cell \<Rightarrow> jsnum" where
  "cell_or_zero (CNum n) = (if truthy_num n then n else Finite 0)"
| "cell_or_zero CUndefined = Finite 0"
| "cell_or_zero CNull = Finite 0"

text \<open>
  \<^verbatim>\<open>xs[x]\<close> for a number \<open>x\<close>: an element when \<open>x\<close> is an index of the
  array, \<^verbatim>\<open>undefined\<close> (\<open>None\<close>) otherwise.
\<close>

fun array_get :: "'a list \<Rightarrow> jsnum \<Rightarrow> 'a option" where
  "array_get xs (Finite q) =
     (if of_int \<lfloor>q\<rfloor> = q \<and> 0 \<le> q \<and> nat \<lfloor>q\<rfloor> < length xs
      then Some (xs ! nat \<lfloor>q\<rfloor>) else None)"
| "array_get xs NaN = None"
| "array_get xs PosInfinity = None"
| "array_get xs NegInfinity = None"

text \<open>Division and remainder by a positive constant.\<close>

fun js_div :: "jsnum \<Rightarrow> rat \<Rightarrow> jsnum" where
  "js_div (Finite q) d = Finite (q / d)"
| "js_div NaN d = NaN"
| "js_div PosInfinity d = PosInfinity"
| "js_div NegInfinity d = NegInfinity"

fun js_rem :: "jsnum \<Rightarrow> rat \<Rightarrow> jsnum" where
  "js_rem (Finite q) d =
     Finite (q - d * of_int (if 0 \<le> q then \<lfloor>q / d\<rfloor> else \<lceil>q / d\<rceil>))"
| "js_rem NaN d = NaN"
| "js_rem PosInfinity d = NaN"
| "js_rem NegInfinity d = NaN"

subsection \<open>The two tables of weather codes\<close>

text \<open>
  The keys of an object literal are the decimal texts of the codes; a number
  finds an entry exactly when it is that integer, \<^verbatim>\<open>undefined\<close> and
  \<^verbatim>\<open>null\<close> find none.
\<close>

fun table_key :: "cell \<Rightarrow> int option" where
  "table_key (CNum (Finite q)) = (if of_int \<lfloor>q\<rfloor> = q then Some \<lfloor>q\<rfloor> else None)"
| "table_key (CNum NaN) = None"
| "table_key (CNum PosInfinity) = None"
| "table_key (CNum NegInfinity) = None"
| "table_key CUndefined = None"
| "table_key CNull = None"

definition table_lookup :: "(int \<times> jsstring) list \<Rightarrow> cell \<Rightarrow> jsstring option" where
  "table_lookup table code =
     (case table_key code of None \<Rightarrow> None | Some k \<Rightarrow> map_of table k)"

text \<open>\<^verbatim>\<open>table[code] || fallback\<close>.\<close>

definition lookup_or :: "(int \<times> jsstring) list \<Rightarrow> cell \<Rightarrow> jsstring \<Rightarrow> jsstring" where
  "lookup_or table code fallback =
     (case table_lookup table code of
        None \<Rightarrow> fallback
      | Some v \<Rightarrow> if v \<noteq> [] then v else fallback)"

definition weatherCodes :: "(int \<times> jsstring) list" where
  "weatherCodes =
     [(0, str ''Clear sky''),
      (1, str ''Mainly clear''),
      (2, str ''Partly cloudy''),
      (3, str ''Overcast''),
      (45, str ''Fog''),
      (48, str ''Depositing rime fog''),
      (51, str ''Light drizzle''),
      (53, str ''Moderate drizzle''),
      (55, str ''Dense drizzle''),
      (56, str ''Light freezing drizzle''),
      (57, str ''Dense freezing drizzle''),
      (61, str ''Slight rain''),
      (63, str ''Moderate rain''),
      (65, str ''Heavy rain''),
      (66, str ''Light freezing rain''),
      (67, str ''Heavy freezing rain''),
      (71, str ''Slight snow fall''),
      (73, str ''Moderate snow fall''),
      (75, str ''Heavy snow fall''),
      (77, str ''Snow grains''),
      (80, str ''Slight rain showers''),
      (81, str ''Moderate rain showers''),
      (82, str ''Violent rain showers''),
      (85, str ''Slight snow showers''),
      (86, str ''Heavy snow showers''),
      (95, str ''Thunderstorm''),
      (96, str ''Thunderstorm with slight hail''),
      (99, str ''Thunderstorm with heavy hail'')]"

definition getWeatherDescription :: "cell \<Rightarrow> jsstring" where
  "getWeatherDescription code = lookup_or weatherCodes code (str ''Unknown'')"

text \<open>The icons are emoji, written as their UTF-16 code units.\<close>

definition icon_sun :: jsstring where
  "icon_sun = [0x2600, 0xFE0F]"

definition icon_sun_small_cloud :: jsstring where
  "icon_sun_small_cloud = [0xD83C, 0xDF24, 0xFE0F]"

definition icon_sun_behind_cloud :: jsstring where
  "icon_sun_behind_cloud = [0x26C5]"

definition icon_cloud :: jsstring where
  "icon_cloud = [0x2601, 0xFE0F]"

definition icon_fog :: jsstring where
  "icon_fog = [0xD83C, 0xDF2B, 0xFE0F]"

definition icon_sun_rain_cloud :: jsstring where
  "icon_sun_rain_cloud = [0xD83C, 0xDF26, 0xFE0F]"

definition icon_rain_cloud :: jsstring where
  "icon_rain_cloud = [0xD83C, 0xDF27, 0xFE0F]"

definition icon_snow_cloud :: jsstring where
  "icon_snow_cloud = [0xD83C, 0xDF28, 0xFE0F]"

definition icon_thunder_cloud :: jsstring where
  "icon_thunder_cloud = [0x26C8, 0xFE0F]"

definition icon_question_mark :: jsstring where
  "icon_question_mark = [0x2753]"

definition iconMap :: "(int \<times> jsstring) list" where
  "iconMap =
     [(0, icon_sun),
      (1, icon_sun_small_cloud),
      (2, icon_sun_behind_cloud),
      (3, icon_cloud),
      (45, icon_fog),
      (48, icon_fog),
      (51, icon_sun_rain_cloud),
      (53, icon_sun_rain_cloud),
      (55, icon_sun_rain_cloud),
      (56, icon_sun_rain_cloud),
      (57, icon_sun_rain_cloud),
      (61, icon_rain_cloud),
      (63, icon_rain_cloud),
      (65, icon_rain_cloud),
      (66, icon_rain_cloud),
      (67, icon_rain_cloud),
      (71, icon_snow_cloud),
      (73, icon_snow_cloud),
      (75, icon_snow_cloud),
      (77, icon_snow_cloud),
      (80, icon_sun_rain_cloud),
      (81, icon_sun_rain_cloud),
      (82, icon_sun_rain_cloud),
      (85, icon_snow_cloud),
      (86, icon_snow_cloud),
      (95, icon_thunder_cloud),
      (96, icon_thunder_cloud),
      (99, icon_thunder_cloud)]"

definition getWeatherIcon :: "cell \<Rightarrow> jsstring" where
  "getWeatherIcon code = lookup_or iconMap code icon_question_mark"

subsection \<open>Dates\<close>

text \<open>
  A \<^verbatim>\<open>Date\<close> object is kept as the timestamp it was constructed from. What
  the platform's clock, time zone and locale make of it is a parameter.
\<close>

datatype jsdate = Date jsstring

record platform =
  toLocaleTimeString :: "jsdate \<Rightarrow> jsstring"
  getHours :: "jsdate \<Rightarrow> jsnum"
  getDay :: "jsdate \<Rightarrow> jsnum"

definition getDayName :: "platform \<Rightarrow> jsdate \<Rightarrow> jsstring option" where
  "getDayName P d =
     (let days = [str ''Sunday'', str ''Monday'', str ''Tuesday'', str ''Wednesday'',
                  str ''Thursday'', str ''Friday'', str ''Saturday'']
      in array_get days (getDay P d))"

definition getShortDayName :: "platform \<Rightarrow> jsdate \<Rightarrow> jsstring option" where
  "getShortDayName P d =
     (let days = [str ''Sun'', str ''Mon'', str ''Tue'', str ''Wed'', str ''Thu'',
                  str ''Fri'', str ''Sat'']
      in array_get days (getDay P d))"

subsection \<open>processHourlyForecast\<close>

record hourly =
  time :: "jsstring list"
  temperature_2m :: "cell list"
  weather_code :: "cell list"

record hourly_entry =
  time :: jsstring
  hour :: jsnum
  temperature :: jsnum
  weatherCode :: cell
  icon :: jsstring

text \<open>The object pushed for the index \<open>hourIndex\<close>.\<close>

definition hourly_entry_at :: "platform \<Rightarrow> hourly \<Rightarrow> nat \<Rightarrow> hourly_entry" where
  "hourly_entry_at P h hourIndex =
     (let t = Date (hourly.time h ! hourIndex)
      in \<lparr> time = toLocaleTimeString P t,
            hour = getHours P t,
            temperature = round_cell (cell_at (temperature_2m h) hourIndex),
            weatherCode = cell_at (hourly.weather_code h) hourIndex,
            icon = getWeatherIcon (cell_at (hourly.weather_code h) hourIndex) \<rparr>)"

text \<open>The \<^verbatim>\<open>for\<close> loop from the counter \<open>i\<close>; the pushes, in order.\<close>

function processHourlyForecast_from ::
  "platform \<Rightarrow> hourly \<Rightarrow> nat \<Rightarrow> nat \<Rightarrow> hourly_entry list" where
  "processHourlyForecast_from P h currentHour i =
     (if i < 12 then
        (let hourIndex = currentHour + i
         in (if hourIndex < length (hourly.time h)
             then [hourly_entry_at P h hourIndex] else [])
            @ processHourlyForecast_from P h currentHour (i + 1))
      else [])"
  by pat_completeness auto
termination
  by (relation "measure (\<lambda>(P, h, currentHour, i). 12 - i)") auto

declare processHourlyForecast_from.simps [simp del]

definition processHourlyForecast :: "platform \<Rightarrow> hourly \<Rightarrow> nat \<Rightarrow> hourly_entry list" where
  "processHourlyForecast P h currentHour = processHourlyForecast_from P h currentHour 0"

subsection \<open>processForecast\<close>

record daily =
  time :: "jsstring list"
  weather_code :: "cell list"
  temperature_2m_max :: "cell list"
  temperature_2m_min :: "cell list"
  apparent_temperature_max :: "cell list"
  apparent_temperature_min :: "cell list"
  precipitation_sum :: "cell list"
  wind_speed_10m_max :: "cell list"

record forecast_entry =
  date :: jsdate
  dayName :: "jsstring option"
  shortDay :: "jsstring option"
  weatherCode :: cell
  description :: jsstring
  icon :: jsstring
  maxTemp :: jsnum
  minTemp :: jsnum
  feelsLikeMax :: jsnum
  feelsLikeMin :: jsnum
  precipitation :: jsnum
  maxWind :: jsnum

text \<open>
  The builder reads only the \<^verbatim>\<open>daily\<close> block of its argument, so the block
  is the argument here. The object pushed for the index \<open>i\<close>:
\<close>

definition forecast_entry_at :: "platform \<Rightarrow> daily \<Rightarrow> nat \<Rightarrow> forecast_entry" where
  "forecast_entry_at P d i =
     (let dt = Date (daily.time d ! i)
      in \<lparr> date = dt,
            dayName = getDayName P dt,
            shortDay = getShortDayName P dt,
            weatherCode = cell_at (daily.weather_code d) i,
            description = getWeatherDescription (cell_at (daily.weather_code d) i),
            icon = getWeatherIcon (cell_at (daily.weather_code d) i),
            maxTemp = round_cell (cell_at (temperature_2m_max d) i),
            minTemp = round_cell (cell_at (temperature_2m_min d) i),
            feelsLikeMax = round_cell (cell_at (apparent_temperature_max d) i),
            feelsLikeMin = round_cell (cell_at (apparent_temperature_min d) i),
            precipitation = cell_or_zero (cell_at (precipitation_sum d) i),
            maxWind = round_cell (cell_at (wind_speed_10m_max d) i) \<rparr>)"

function processForecast_from :: "platform \<Rightarrow> daily \<Rightarrow> nat \<Rightarrow> forecast_entry list" where
  "processForecast_from P d i =
     (if i < length (daily.time d)
      then forecast_entry_at P d i # processForecast_from P d (i + 1)
      else [])"
  by pat_completeness auto
termination
  by (relation "measure (\<lambda>(P, d, i). length (daily.time d) - i)") auto

declare processForecast_from.simps [simp del]

definition processForecast :: "platform \<Rightarrow> daily \<Rightarrow> forecast_entry list" where
  "processForecast P d = processForecast_from P d 1"

subsection \<open>getWindDirection\<close>

definition directions :: "jsstring list" where
  "directions =
     [str ''N'', str ''NNE'', str ''NE'', str ''ENE'', str ''E'', str ''ESE'',
      str ''SE'', str ''SSE'', str ''S'', str ''SSW'', str ''SW'', str ''WSW'',
      str ''W'', str ''WNW'', str ''NW'', str ''NNW'']"

definition getWindDirection :: "jsnum \<Rightarrow> jsstring option" where
  "getWindDirection degrees =
     (let index = js_rem (Math_round (js_div degrees 22.5)) 16
      in array_get directions index)"

section \<open>Reference data\<close>

text \<open>The codes the specification enumerates for the lookup tables.\<close>

definition known_codes :: "int list" where
  "known_codes =
     [0, 1, 2, 3, 45, 48, 51, 53, 55, 56, 57, 61, 63, 65, 66, 67, 71, 73, 75, 77,
      80, 81, 82, 85, 86, 95, 96, 99]"

text \<open>The calendar table of the specification: seven names, Sunday first.\<close>

definition day_names :: "jsstring list" where
  "day_names = [str ''Sunday'', str ''Monday'', str ''Tuesday'', str ''Wednesday'',
                str ''Thursday'', str ''Friday'', str ''Saturday'']"

text \<open>The closed interval of finite numbers from \<open>lo\<close> to \<open>hi\<close>.\<close>

fun in_range :: "rat \<Rightarrow> rat \<Rightarrow> jsnum \<Rightarrow> bool" where
  "in_range lo hi (Finite q) = (lo \<le> q \<and> q \<le> hi)"
| "in_range lo hi NaN = False"
| "in_range lo hi PosInfinity = False"
| "in_range lo hi NegInfinity = False"

text \<open>
  Sample inputs: a network that answers every attempt with the same body, one
  that is unreachable, and a day of hourly and a week of daily measurements
  on a platform with a fixed clock.
\<close>

definition respond_with :: "jsval \<Rightarrow> network" where
  "respond_with data = (\<lambda>u k. Resolves \<lparr> status = 200, statusText = str ''OK'', json = Inr data \<rparr>)"

definition unreachable :: network where
  "unreachable = (\<lambda>u k. Rejects (TypeError (str ''Failed to fetch'')))"

definition parse_nothing :: "jsval \<Rightarrow> jsnum" where
  "parse_nothing v = NaN"

text \<open>
  Geocoding bodies: a place in Paris, a place on the equator, and a result
  whose coordinates are outside the ranges of latitude and longitude.
\<close>

definition paris_data :: jsval where
  "paris_data =
     JObj [(str ''results'',
            JArr [JObj [(str ''id'', JNum (Finite 2988507)),
                        (str ''name'', JStr (str ''Paris'')),
                        (str ''latitude'', JNum (Finite 48.85341)),
                        (str ''longitude'', JNum (Finite 2.3488)),
                        (str ''country'', JStr (str ''France''))]])]"

definition equator_data :: jsval where
  "equator_data =
     JObj [(str ''results'',
            JArr [JObj [(str ''id'', JNum (Finite 1)),
                        (str ''name'', JStr (str ''Equator'')),
                        (str ''latitude'', JNum (Finite 0)),
                        (str ''longitude'', JNum (Finite 9.45)),
                        (str ''country'', JStr (str ''Gabon''))]])]"

definition far_data :: jsval where
  "far_data =
     JObj [(str ''results'',
            JArr [JObj [(str ''name'', JStr (str ''Nowhere'')),
                        (str ''latitude'', JNum (Finite 123.4)),
                        (str ''longitude'', JNum (Finite 200))]])]"

definition sample_platform :: platform where
  "sample_platform =
     \<lparr> toLocaleTimeString = (\<lambda>d. case d of Date s \<Rightarrow> s),
       getHours = (\<lambda>d. Finite 22),
       getDay = (\<lambda>d. Finite 2) \<rparr>"

definition sample_hourly :: hourly where
  "sample_hourly =
     \<lparr> hourly.time = replicate 24 (str ''2024-01-16T22:00''),
       temperature_2m = replicate 24 (CNum (Finite 71.5)),
       hourly.weather_code = replicate 24 (CNum (Finite 3)) \<rparr>"

definition sample_daily :: daily where
  "sample_daily =
     \<lparr> daily.time = replicate 5 (str ''2024-01-16''),
       daily.weather_code = replicate 5 (CNum (Finite 61)),
       temperature_2m_max = replicate 5 (CNum (Finite 50.5)),
       temperature_2m_min = replicate 5 (CNum (Finite (- 2.5))),
       apparent_temperature_max = replicate 5 (CNum (Finite 48)),
       apparent_temperature_min = replicate 5 (CNum (Finite (- 5))),
       precipitation_sum = replicate 5 CNull,
       wind_speed_10m_max = replicate 5 (CNum (Finite 12.5)) \<rparr>"

definition rainy_daily :: daily where
  "rainy_daily = sample_daily \<lparr> precipitation_sum := replicate 5 (CNum (Finite 3.2)) \<rparr>"

section \<open>Properties of the validator\<close>

lemma typeof_string_iff: "typeof v = str ''string'' \<longleftrightarrow> (\<exists>s. v = JStr s)"
  by (cases v) simp_all

lemma regex_test_iff: "regex_test cls s \<longleftrightarrow> (\<exists>c \<in> set s. c \<in> cls)"
  by (induction s) auto

lemma set_trim_subset: "set (trim s) \<subseteq> set s"
proof -
  have "set (trim s) = set (dropWhile is_whitespace (rev (dropWhile is_whitespace s)))"
    by (simp add: trim_def)
  also have "\<dots> \<subseteq> set (rev (dropWhile is_whitespace s))"
    by (rule set_dropWhileD [THEN subsetI])
  also have "\<dots> \<subseteq> set s"
    using set_dropWhileD [of _ is_whitespace s] by auto
  finally show ?thesis .
qed

lemma not_whitespace_dangerous: "c \<in> dangerousChars \<Longrightarrow> \<not> is_whitespace c"
  by (auto simp: dangerousChars_def is_whitespace_def)

lemma dropWhile_keeps: "x \<in> set xs \<Longrightarrow> \<not> P x \<Longrightarrow> x \<in> set (dropWhile P xs)"
  by (induction xs) auto

lemma dangerous_survives_trim:
  assumes "c \<in> set s" and "c \<in> dangerousChars"
  shows "c \<in> set (trim s)"
proof -
  have nw: "\<not> is_whitespace c"
    using assms(2) by (rule not_whitespace_dangerous)
  have "c \<in> set (rev (dropWhile is_whitespace s))"
    using assms(1) nw dropWhile_keeps [of c s is_whitespace] by simp
  then have "c \<in> set (dropWhile is_whitespace (rev (dropWhile is_whitespace s)))"
    using nw dropWhile_keeps [of c "rev (dropWhile is_whitespace s)" is_whitespace] by simp
  then show ?thesis by (simp add: trim_def)
qed

lemma regex_test_trim:
  "regex_test dangerousChars (trim s) \<longleftrightarrow> (\<exists>c \<in> set s. c \<in> dangerousChars)"
  using set_trim_subset [of s] dangerous_survives_trim [of _ s]
  by (auto simp: regex_test_iff)

text \<open>
  Claim C4. The validator applies its rules in order and the first rule that
  fails decides the error: a value that is not a string, or the empty string,
  is refused as missing; then a text that trims to nothing; then a trimmed
  text of fewer than 2 or of more than 100 code units; then a text holding one
  of the characters \<^verbatim>\<open>< > " ' &\<close>. Every other string is accepted and the
  result is the trimmed text.
\<close>

theorem validateCityName_rules:
  "validateCityName v =
     (case v of
        JStr s \<Rightarrow>
          if s = [] then Inl (Error (str ''City name is required''))
          else if trim s = [] then Inl (Error (str ''City name cannot be empty''))
          else if length (trim s) < 2 then
            Inl (Error (str ''City name must be at least 2 characters long''))
          else if 100 < length (trim s) then
            Inl (Error (str ''City name is too long (max 100 characters)''))
          else if (\<exists>c \<in> set s. c \<in> dangerousChars) then
            Inl (Error (str ''City name contains invalid characters''))
          else Inr (trim s)
      | _ \<Rightarrow> Inl (Error (str ''City name is required'')))"
  by (cases v) (simp_all add: validateCityName_def regex_test_trim Let_def)

theorem validateCityName_rules_witness:
  "validateCityName (JStr (str ''  New York '')) = Inr (str ''New York'')
   \<and> validateCityName (JStr (str '' a<b ''))
       = Inl (Error (str ''City name contains invalid characters''))"
  using validateCityName_rules [of "JStr (str ''  New York '')"]
        validateCityName_rules [of "JStr (str '' a<b '')"]
  by (simp add: trim_def is_whitespace_def dangerousChars_def)

section \<open>Properties of the retry loop\<close>

lemma fetchWithRetry_from_ok:
  "attempt \<le> n \<Longrightarrow> attempt_fetch (net u attempt) = Inr r \<Longrightarrow>
   fetchWithRetry_from net u n attempt = (Inr (Some r), [Fetch u])"
  by (subst fetchWithRetry_from.simps) simp

lemma fetchWithRetry_from_last:
  "attempt_fetch (net u n) = Inl e \<Longrightarrow>
   fetchWithRetry_from net u n n = (Inl (final_error e), [Fetch u])"
  by (subst fetchWithRetry_from.simps) simp

lemma fetchWithRetry_from_retry:
  "attempt < n \<Longrightarrow> attempt_fetch (net u attempt) = Inl e \<Longrightarrow>
   fetchWithRetry_from net u n attempt =
     (fst (fetchWithRetry_from net u n (Suc attempt)),
      Fetch u # Sleep (2 ^ (attempt - 1) * 1000)
        # snd (fetchWithRetry_from net u n (Suc attempt)))"
  by (subst fetchWithRetry_from.simps) (simp add: split_beta)

lemma fetchWithRetry_from_past: "n < attempt \<Longrightarrow> fetchWithRetry_from net u n attempt = (Inr None, [])"
  by (subst fetchWithRetry_from.simps) simp

lemma trace_of_three_attempts:
  "snd (fetchWithRetry net u 3) =
     (if isl (attempt_fetch (net u 1)) then
        if isl (attempt_fetch (net u 2)) then
          [Fetch u, Sleep 1000, Fetch u, Sleep 2000, Fetch u]
        else [Fetch u, Sleep 1000, Fetch u]
      else [Fetch u])"
proof -
  let ?n = "Suc (Suc (Suc 0))"
  have three: "snd (fetchWithRetry_from net u ?n ?n) = [Fetch u]"
    by (cases "attempt_fetch (net u ?n)")
       (simp_all add: fetchWithRetry_from_ok fetchWithRetry_from_last)
  have two: "snd (fetchWithRetry_from net u ?n (Suc (Suc 0))) =
      (if isl (attempt_fetch (net u (Suc (Suc 0)))) then [Fetch u, Sleep 2000, Fetch u]
       else [Fetch u])"
    by (cases "attempt_fetch (net u (Suc (Suc 0)))")
       (simp_all add: fetchWithRetry_from_ok fetchWithRetry_from_retry three)
  have one: "snd (fetchWithRetry_from net u ?n (Suc 0)) =
      (if isl (attempt_fetch (net u (Suc 0))) then
         Fetch u # Sleep 1000 # snd (fetchWithRetry_from net u ?n (Suc (Suc 0)))
       else [Fetch u])"
    by (cases "attempt_fetch (net u (Suc 0))")
       (simp_all add: fetchWithRetry_from_ok fetchWithRetry_from_retry)
  show ?thesis
    by (simp add: fetchWithRetry_def numeral_3_eq_3 numeral_2_eq_2 one two)
qed

lemma fetch_count_from:
  "length (filter is_Fetch (snd (fetchWithRetry_from net u n a))) \<le> Suc n - a"
proof (induction net u n a rule: fetchWithRetry_from.induct)
  case (1 net u maxRetries attempt)
  show ?case
  proof (cases "attempt \<le> maxRetries")
    case False
    then show ?thesis by (simp add: fetchWithRetry_from_past)
  next
    case le: True
    show ?thesis
    proof (cases "attempt_fetch (net u attempt)")
      case (Inr r)
      with le show ?thesis by (simp add: fetchWithRetry_from_ok)
    next
      case (Inl e)
      show ?thesis
      proof (cases "attempt = maxRetries")
        case True
        with Inl show ?thesis by (simp add: fetchWithRetry_from_last)
      next
        case False
        have "length (filter is_Fetch (snd (fetchWithRetry_from net u maxRetries (attempt + 1))))
                \<le> Suc maxRetries - (attempt + 1)"
          using "1.IH" [OF le Inl False refl] by (simp add: split_beta)
        with le Inl False show ?thesis
          by (simp add: fetchWithRetry_from_retry)
      qed
    qed
  qed
qed

text \<open>
  Claim C5. With three attempts allowed, the loop fetches, and after a failed
  attempt numbered \<open>i\<close> that is not the last it sleeps \<open>1000 * 2 ^ (i - 1)\<close>
  milliseconds (1000 after the first, 2000 after the second) and fetches
  again; the last event is always a fetch, so nothing is waited for and nothing
  is fetched after the final attempt. Whatever the number of attempts allowed,
  no more fetches than that are made.
\<close>

theorem fetchWithRetry_backoff:
  "snd (fetchWithRetry net u 3) =
     (if isl (attempt_fetch (net u 1)) then
        if isl (attempt_fetch (net u 2)) then
          [Fetch u, Sleep (1000 * 2 ^ (1 - 1)), Fetch u, Sleep (1000 * 2 ^ (2 - 1)), Fetch u]
        else [Fetch u, Sleep (1000 * 2 ^ (1 - 1)), Fetch u]
      else [Fetch u])
   \<and> last (snd (fetchWithRetry net u 3)) = Fetch u
   \<and> length (filter is_Fetch (snd (fetchWithRetry net u maxRetries))) \<le> maxRetries"
proof -
  have "length (filter is_Fetch (snd (fetchWithRetry net u maxRetries))) \<le> maxRetries"
    using fetch_count_from [of net u maxRetries 1] by (simp add: fetchWithRetry_def)
  then show ?thesis
    by (simp add: trace_of_three_attempts)
qed

section \<open>Properties of the lookup tables\<close>

lemma keys_weatherCodes: "map fst weatherCodes = known_codes"
  by (simp add: weatherCodes_def known_codes_def)

lemma keys_iconMap: "map fst iconMap = known_codes"
  by (simp add: iconMap_def known_codes_def)

lemma table_key_int: "table_key (CNum (Finite (of_int k))) = Some k"
  by simp

lemma descriptions_specific:
  "(k, d) \<in> set weatherCodes \<Longrightarrow> d \<noteq> [] \<and> d \<noteq> str ''Unknown''"
  by (auto simp: weatherCodes_def)

lemmas icon_defs = icon_sun_def icon_sun_small_cloud_def icon_sun_behind_cloud_def
  icon_cloud_def icon_fog_def icon_sun_rain_cloud_def icon_rain_cloud_def
  icon_snow_cloud_def icon_thunder_cloud_def icon_question_mark_def

lemma icons_specific:
  "(k, i) \<in> set iconMap \<Longrightarrow> i \<noteq> [] \<and> i \<noteq> icon_question_mark"
  by (auto simp: iconMap_def icon_defs)

lemma lookup_or_fallback_iff:
  assumes "\<And>k v. (k, v) \<in> set table \<Longrightarrow> v \<noteq> [] \<and> v \<noteq> fallback"
  shows "lookup_or table code fallback = fallback \<longleftrightarrow> table_lookup table code = None"
proof (cases "table_lookup table code")
  case None
  then show ?thesis by (simp add: lookup_or_def)
next
  case (Some v)
  then obtain k where "map_of table k = Some v"
    by (auto simp: table_lookup_def split: option.splits)
  then have "(k, v) \<in> set table" by (rule map_of_SomeD)
  with assms have "v \<noteq> [] \<and> v \<noteq> fallback" by blast
  with Some show ?thesis by (simp add: lookup_or_def)
qed

lemma table_lookup_None_iff:
  "table_lookup table code = None \<longleftrightarrow>
     (case table_key code of None \<Rightarrow> True | Some k \<Rightarrow> k \<notin> set (map fst table))"
  by (simp add: table_lookup_def map_of_eq_None_iff split: option.splits)

lemma description_unknown_iff:
  "getWeatherDescription code = str ''Unknown'' \<longleftrightarrow>
     (case table_key code of None \<Rightarrow> True | Some k \<Rightarrow> k \<notin> set known_codes)"
  unfolding getWeatherDescription_def
  by (simp only: lookup_or_fallback_iff [OF descriptions_specific] table_lookup_None_iff
        keys_weatherCodes)

lemma icon_placeholder_iff:
  "getWeatherIcon code = icon_question_mark \<longleftrightarrow>
     (case table_key code of None \<Rightarrow> True | Some k \<Rightarrow> k \<notin> set known_codes)"
  unfolding getWeatherIcon_def
  by (simp only: lookup_or_fallback_iff [OF icons_specific] table_lookup_None_iff
        keys_iconMap)

text \<open>
  Claim C10. For every integer weather code the description is "Unknown"
  exactly when the icon is the question mark: the description table and the
  icon table have the same keys, the 28 known codes, and no entry of either
  table is empty or equal to the fallback.
\<close>

theorem weather_tables_agree:
  "(getWeatherDescription (CNum (Finite (of_int k))) = str ''Unknown''
      \<longleftrightarrow> getWeatherIcon (CNum (Finite (of_int k))) = icon_question_mark)
   \<and> (getWeatherDescription (CNum (Finite (of_int k))) = str ''Unknown''
      \<longleftrightarrow> k \<notin> set known_codes)
   \<and> map fst weatherCodes = known_codes
   \<and> map fst iconMap = known_codes
   \<and> length known_codes = 28
   \<and> distinct known_codes"
proof -
  let ?code = "CNum (Finite (of_int k))"
  have d: "getWeatherDescription ?code = str ''Unknown'' \<longleftrightarrow> k \<notin> set known_codes"
    unfolding description_unknown_iff table_key_int by simp
  have i: "getWeatherIcon ?code = icon_question_mark \<longleftrightarrow> k \<notin> set known_codes"
    unfolding icon_placeholder_iff table_key_int by simp
  have "length known_codes = 28" and "distinct known_codes"
    by (simp_all add: known_codes_def)
  with d i keys_weatherCodes keys_iconMap show ?thesis
    by blast
qed

theorem weather_tables_agree_witness:
  "getWeatherDescription (CNum (Finite (of_int 45))) \<noteq> str ''Unknown''
   \<and> getWeatherIcon (CNum (Finite (of_int 45))) \<noteq> icon_question_mark
   \<and> getWeatherDescription (CNum (Finite (of_int 9999))) = str ''Unknown''
   \<and> getWeatherIcon (CNum (Finite (of_int 9999))) = icon_question_mark"
  using weather_tables_agree [of 45] weather_tables_agree [of 9999]
  by (auto simp: known_codes_def)

section \<open>Properties of the wind direction\<close>

lemma round_index_bounds:
  fixes d :: rat
  assumes "0 \<le> d" "d \<le> 360"
  shows "0 \<le> \<lfloor>d / 22.5 + 1 / 2\<rfloor>" and "\<lfloor>d / 22.5 + 1 / 2\<rfloor> \<le> 16"
proof -
  have "0 \<le> d / 22.5 + 1 / 2" using assms(1) by simp
  then show "0 \<le> \<lfloor>d / 22.5 + 1 / 2\<rfloor>" by simp
  have "d / 22.5 + 1 / 2 < 17" using assms(2) by simp
  then have "\<lfloor>d / 22.5 + 1 / 2\<rfloor> < 17" by (simp add: floor_less_iff)
  then show "\<lfloor>d / 22.5 + 1 / 2\<rfloor> \<le> 16" by simp
qed

lemma js_rem_of_int:
  assumes k: "0 \<le> k"
  shows "js_rem (Finite (of_int k)) 16 = Finite (of_int (k mod 16))"
proof -
  have "\<lfloor>(of_int k :: rat) / 16\<rfloor> = k div 16"
    using floor_divide_of_int_eq [of k 16, where ?'a = rat] by simp
  moreover have "k - 16 * (k div 16) = k mod 16"
    by (simp add: minus_mult_div_eq_mod)
  ultimately have "(of_int k :: rat) - 16 * of_int \<lfloor>(of_int k :: rat) / 16\<rfloor> = of_int (k mod 16)"
    by (metis of_int_diff of_int_mult of_int_numeral)
  with k show ?thesis by simp
qed

lemma array_get_of_int:
  "0 \<le> m \<Longrightarrow> nat m < length xs \<Longrightarrow> array_get xs (Finite (of_int m)) = Some (xs ! nat m)"
  by simp

lemma getWindDirection_in_range:
  assumes "0 \<le> d" "d \<le> 360"
  shows "getWindDirection (Finite d) = Some (directions ! (nat \<lfloor>d / 22.5 + 1 / 2\<rfloor> mod 16))"
proof -
  let ?k = "\<lfloor>d / 22.5 + 1 / 2\<rfloor>"
  have k: "0 \<le> ?k" using round_index_bounds(1) [OF assms] .
  have m: "0 \<le> ?k mod 16" "?k mod 16 < 16" by simp_all
  have len: "length directions = 16" by (simp add: directions_def)
  have nm: "nat (?k mod 16) = nat ?k mod 16"
    using k by (simp add: nat_mod_distrib)
  have "getWindDirection (Finite d) = array_get directions (Finite (of_int (?k mod 16)))"
    using js_rem_of_int [OF k] by (simp add: getWindDirection_def)
  also have "\<dots> = Some (directions ! nat (?k mod 16))"
    using m len by (intro array_get_of_int) simp_all
  finally show ?thesis by (simp only: nm)
qed

lemma getWindDirection_examples:
  "getWindDirection (Finite 0) = Some (str ''N'')"
  "getWindDirection (Finite 90) = Some (str ''E'')"
  "getWindDirection (Finite 359) = Some (str ''N'')"
  by code_simp+

text \<open>
  Claim C8. For a bearing between 0 and 360 degrees the label is the entry of
  the table of 16 compass labels at the index \<open>round (degrees / 22.5) mod 16\<close>,
  where rounding is to the nearest integer, upwards from a half; the index is
  inside the table, so the label is defined. The bearings 0, 90 and 359 give
  N, E and N. (Division is exact here, not rounded to a double.)
\<close>

theorem getWindDirection_label:
  "(0 \<le> d \<and> d \<le> 360 \<longrightarrow>
      nat \<lfloor>d / 22.5 + 1 / 2\<rfloor> mod 16 < length directions
      \<and> getWindDirection (Finite d)
          = Some (directions ! (nat \<lfloor>d / 22.5 + 1 / 2\<rfloor> mod 16)))
   \<and> length directions = 16
   \<and> getWindDirection (Finite 0) = Some (str ''N'')
   \<and> getWindDirection (Finite 90) = Some (str ''E'')
   \<and> getWindDirection (Finite 359) = Some (str ''N'')"
proof -
  have len: "length directions = 16" by (simp add: directions_def)
  then show ?thesis
    by (simp add: getWindDirection_in_range getWindDirection_examples)
qed

theorem getWindDirection_label_witness:
  "(0::rat) \<le> 225 \<and> (225::rat) \<le> 360
   \<and> getWindDirection (Finite 225) = Some (str ''SW'')"
  using getWindDirection_label [of 225]
  by (simp add: directions_def floor_unique [of 10 "21 / 2"])

section \<open>Properties of the forecast builders\<close>

lemma Math_round_nearest:
  "Math_round (Finite q) = Finite (of_int \<lfloor>q + 1 / 2\<rfloor>)
   \<and> \<bar>q - of_int \<lfloor>q + 1 / 2\<rfloor>\<bar> \<le> 1 / 2"
proof -
  let ?k = "\<lfloor>q + 1 / 2\<rfloor>"
  have "of_int ?k \<le> q + 1 / 2" and "q + 1 / 2 < of_int ?k + 1"
    by linarith+
  then have "\<bar>q - of_int ?k\<bar> \<le> 1 / 2" by linarith
  then show ?thesis by simp
qed

lemma processHourlyForecast_from_eq:
  "i \<le> 12 \<Longrightarrow>
   processHourlyForecast_from P h c i =
     map (hourly_entry_at P h) [c + i ..< min (c + 12) (length (hourly.time h))]"
proof (induction P h c i rule: processHourlyForecast_from.induct)
  case (1 P h currentHour i)
  show ?case
  proof (cases "i < 12")
    case False
    with "1.prems" have "i = 12" by simp
    then show ?thesis by (subst processHourlyForecast_from.simps) simp
  next
    case True
    then have IH: "processHourlyForecast_from P h currentHour (i + 1) =
        map (hourly_entry_at P h)
          [currentHour + (i + 1) ..< min (currentHour + 12) (length (hourly.time h))]"
      using "1.IH" [OF True refl] by simp
    show ?thesis
    proof (cases "currentHour + i < length (hourly.time h)")
      case inside: True
      with True have "[currentHour + i ..< min (currentHour + 12) (length (hourly.time h))]
          = (currentHour + i)
            # [currentHour + (i + 1) ..< min (currentHour + 12) (length (hourly.time h))]"
        by (simp add: upt_conv_Cons)
      with True inside IH show ?thesis
        by (subst processHourlyForecast_from.simps) (simp add: Let_def)
    next
      case outside: False
      then have "[currentHour + i ..< min (currentHour + 12) (length (hourly.time h))] = []"
        and "[currentHour + (i + 1) ..< min (currentHour + 12) (length (hourly.time h))] = []"
        by simp_all
      with True outside IH show ?thesis
        by (subst processHourlyForecast_from.simps) (simp add: Let_def)
    qed
  qed
qed

lemma processHourlyForecast_eq:
  "processHourlyForecast P h c =
     map (hourly_entry_at P h) [c ..< min (c + 12) (length (hourly.time h))]"
  using processHourlyForecast_from_eq [of 0 P h c] by (simp add: processHourlyForecast_def)

lemma upt_22_24: "[22 ..< 24] = [22, 23::nat]"
  by (simp add: upt_conv_Cons)

text \<open>
  Claim C6. The hourly builder returns the entries of the consecutive indices
  \<open>currentHour\<close>, \<open>currentHour + 1\<close>, ... of the series: 12 of them, or
  fewer when the series ends first. From hour 22 of a series of 24 it returns
  the two entries of the indices 22 and 23. The temperature of an entry is the
  measurement at its index rounded to the nearest integer, its icon the one
  the table gives for the weather code at its index.
\<close>

theorem processHourlyForecast_window:
  "processHourlyForecast P h currentHour
     = map (hourly_entry_at P h)
         [currentHour ..< min (currentHour + 12) (length (hourly.time h))]
   \<and> length (processHourlyForecast P h currentHour)
       = min 12 (length (hourly.time h) - currentHour)
   \<and> (length (hourly.time h) = 24 \<longrightarrow>
        processHourlyForecast P h 22 = [hourly_entry_at P h 22, hourly_entry_at P h 23])
   \<and> hourly_entry.temperature (hourly_entry_at P h i)
       = Math_round (ToNumber (cell_at (temperature_2m h) i))
   \<and> (cell_at (temperature_2m h) i = CNum (Finite q) \<longrightarrow>
        hourly_entry.temperature (hourly_entry_at P h i) = Finite (of_int \<lfloor>q + 1 / 2\<rfloor>)
        \<and> \<bar>q - of_int \<lfloor>q + 1 / 2\<rfloor>\<bar> \<le> 1 / 2)
   \<and> hourly_entry.weatherCode (hourly_entry_at P h i) = cell_at (hourly.weather_code h) i
   \<and> hourly_entry.icon (hourly_entry_at P h i)
       = getWeatherIcon (cell_at (hourly.weather_code h) i)"
proof -
  have window: "processHourlyForecast P h currentHour
     = map (hourly_entry_at P h)
         [currentHour ..< min (currentHour + 12) (length (hourly.time h))]"
    by (rule processHourlyForecast_eq)
  have count: "length (processHourlyForecast P h currentHour)
       = min 12 (length (hourly.time h) - currentHour)"
    unfolding window by auto
  have late: "length (hourly.time h) = 24 \<longrightarrow>
        processHourlyForecast P h 22 = [hourly_entry_at P h 22, hourly_entry_at P h 23]"
    by (simp add: processHourlyForecast_eq upt_22_24)
  have fields: "hourly_entry.temperature (hourly_entry_at P h i)
       = Math_round (ToNumber (cell_at (temperature_2m h) i))"
    "hourly_entry.weatherCode (hourly_entry_at P h i) = cell_at (hourly.weather_code h) i"
    "hourly_entry.icon (hourly_entry_at P h i)
       = getWeatherIcon (cell_at (hourly.weather_code h) i)"
    by (simp_all add: hourly_entry_at_def round_cell_def Let_def)
  have nearest: "cell_at (temperature_2m h) i = CNum (Finite q) \<longrightarrow>
        hourly_entry.temperature (hourly_entry_at P h i) = Finite (of_int \<lfloor>q + 1 / 2\<rfloor>)
        \<and> \<bar>q - of_int \<lfloor>q + 1 / 2\<rfloor>\<bar> \<le> 1 / 2"
    using Math_round_nearest [of q] by (simp add: fields(1))
  from window count late fields nearest show ?thesis
    by blast
qed

theorem processHourlyForecast_window_witness:
  "length (hourly.time sample_hourly) = 24
   \<and> cell_at (temperature_2m sample_hourly) 22 = CNum (Finite 71.5)
   \<and> processHourlyForecast sample_platform sample_hourly 22
       = [hourly_entry_at sample_platform sample_hourly 22,
          hourly_entry_at sample_platform sample_hourly 23]
   \<and> hourly_entry.temperature (hourly_entry_at sample_platform sample_hourly 22) = Finite 72
   \<and> hourly_entry.icon (hourly_entry_at sample_platform sample_hourly 22) = icon_cloud"
proof -
  have len: "length (hourly.time sample_hourly) = 24"
    by (simp add: sample_hourly_def)
  have cell: "cell_at (temperature_2m sample_hourly) 22 = CNum (Finite 71.5)"
    by (simp add: sample_hourly_def cell_at_def)
  have code: "cell_at (hourly.weather_code sample_hourly) 22 = CNum (Finite 3)"
    by (simp add: sample_hourly_def cell_at_def)
  have icon: "getWeatherIcon (CNum (Finite 3)) = icon_cloud"
    by (simp add: getWeatherIcon_def lookup_or_def table_lookup_def iconMap_def icon_defs)
  have fl: "\<lfloor>(715 / 10 :: rat) + 1 / 2\<rfloor> = 72"
    by (simp add: floor_unique)
  from processHourlyForecast_window [of sample_platform sample_hourly 22 22 "71.5"]
  show ?thesis
    using len cell code icon fl by simp
qed

lemma processForecast_from_eq:
  "processForecast_from P d i = map (forecast_entry_at P d) [i ..< length (daily.time d)]"
proof (induction P d i rule: processForecast_from.induct)
  case (1 P d i)
  show ?case
  proof (cases "i < length (daily.time d)")
    case False
    then show ?thesis by (subst processForecast_from.simps) simp
  next
    case True
    then have "processForecast_from P d (i + 1)
        = map (forecast_entry_at P d) [i + 1 ..< length (daily.time d)]"
      by (rule "1.IH")
    with True show ?thesis
      by (subst processForecast_from.simps) (simp add: upt_conv_Cons)
  qed
qed

lemma processForecast_eq:
  "processForecast P d = map (forecast_entry_at P d) [1 ..< length (daily.time d)]"
  by (simp add: processForecast_def processForecast_from_eq)

lemma upt_1_5: "[Suc 0 ..< 5] = [Suc 0, 2, 3, 4]"
  by (simp add: upt_conv_Cons)

lemma getDayName_table:
  assumes "getDay P dt = Finite (of_nat n)" and "n < 7"
  shows "getDayName P dt = Some (day_names ! n)"
proof -
  have "\<lfloor>(of_nat n :: rat)\<rfloor> = int n"
    by (metis floor_of_int of_int_of_nat_eq)
  with assms show ?thesis
    by (simp add: getDayName_def day_names_def)
qed

lemma round_cell_Finite:
  "c = CNum (Finite q) \<Longrightarrow>
   round_cell c = Finite (of_int \<lfloor>q + 1 / 2\<rfloor>) \<and> \<bar>q - of_int \<lfloor>q + 1 / 2\<rfloor>\<bar> \<le> 1 / 2"
  using Math_round_nearest [of q] by (simp add: round_cell_def)

lemma getDayName_array: "getDayName P dt = array_get day_names (getDay P dt)"
  by (simp add: getDayName_def day_names_def)

text \<open>
  Claim C7. For a daily series of length \<open>N\<close> the daily builder returns the
  entries of the indices 1 to \<open>N - 1\<close>, leaving out index 0: \<open>N - 1\<close> entries
  (none for an empty series), so 4 entries for a horizon of 5 days. In an
  entry each of the four temperatures is the measurement at its index rounded
  to the nearest integer: a measurement \<open>q\<close> gives the integer
  \<open>\<lfloor>q + 1 / 2\<rfloor>\<close>, which is at most a half away from \<open>q\<close>. A missing
  precipitation (\<^verbatim>\<open>undefined\<close> or \<^verbatim>\<open>null\<close>) is 0 and a precipitation
  that is there and not 0 is kept. The name of the day is the entry of the
  table of seven names, Sunday first, at the index that \<^verbatim>\<open>Date.getDay\<close> gives
  for the entry's date. That index is the platform's: it is the day of the
  week in the local time zone of the instant the timestamp parses to, and the
  theorem says nothing about how it relates to the calendar day written in
  the timestamp.
\<close>

theorem processForecast_days:
  "processForecast P d = map (forecast_entry_at P d) [1 ..< length (daily.time d)]
   \<and> (length (daily.time d) = 0 \<longrightarrow> processForecast P d = [])
   \<and> (0 < length (daily.time d) \<longrightarrow>
        Suc (length (processForecast P d)) = length (daily.time d))
   \<and> (length (daily.time d) = 5 \<longrightarrow>
        processForecast P d
          = [forecast_entry_at P d 1, forecast_entry_at P d 2,
             forecast_entry_at P d 3, forecast_entry_at P d 4])
   \<and> maxTemp (forecast_entry_at P d i) = Math_round (ToNumber (cell_at (temperature_2m_max d) i))
   \<and> minTemp (forecast_entry_at P d i) = Math_round (ToNumber (cell_at (temperature_2m_min d) i))
   \<and> feelsLikeMax (forecast_entry_at P d i)
       = Math_round (ToNumber (cell_at (apparent_temperature_max d) i))
   \<and> feelsLikeMin (forecast_entry_at P d i)
       = Math_round (ToNumber (cell_at (apparent_temperature_min d) i))
   \<and> Math_round (Finite q) = Finite (of_int \<lfloor>q + 1 / 2\<rfloor>)
   \<and> \<bar>q - of_int \<lfloor>q + 1 / 2\<rfloor>\<bar> \<le> 1 / 2
   \<and> (cell_at (temperature_2m_max d) i = CNum (Finite hi) \<longrightarrow>
        maxTemp (forecast_entry_at P d i) = Finite (of_int \<lfloor>hi + 1 / 2\<rfloor>)
        \<and> \<bar>hi - of_int \<lfloor>hi + 1 / 2\<rfloor>\<bar> \<le> 1 / 2)
   \<and> (cell_at (temperature_2m_min d) i = CNum (Finite lo) \<longrightarrow>
        minTemp (forecast_entry_at P d i) = Finite (of_int \<lfloor>lo + 1 / 2\<rfloor>)
        \<and> \<bar>lo - of_int \<lfloor>lo + 1 / 2\<rfloor>\<bar> \<le> 1 / 2)
   \<and> (cell_at (apparent_temperature_max d) i = CNum (Finite fhi) \<longrightarrow>
        feelsLikeMax (forecast_entry_at P d i) = Finite (of_int \<lfloor>fhi + 1 / 2\<rfloor>)
        \<and> \<bar>fhi - of_int \<lfloor>fhi + 1 / 2\<rfloor>\<bar> \<le> 1 / 2)
   \<and> (cell_at (apparent_temperature_min d) i = CNum (Finite flo) \<longrightarrow>
        feelsLikeMin (forecast_entry_at P d i) = Finite (of_int \<lfloor>flo + 1 / 2\<rfloor>)
        \<and> \<bar>flo - of_int \<lfloor>flo + 1 / 2\<rfloor>\<bar> \<le> 1 / 2)
   \<and> (cell_at (precipitation_sum d) i = CUndefined \<or> cell_at (precipitation_sum d) i = CNull
        \<longrightarrow> precipitation (forecast_entry_at P d i) = Finite 0)
   \<and> (cell_at (precipitation_sum d) i = CNum (Finite rain) \<and> rain \<noteq> 0
        \<longrightarrow> precipitation (forecast_entry_at P d i) = Finite rain)
   \<and> date (forecast_entry_at P d i) = Date (daily.time d ! i)
   \<and> dayName (forecast_entry_at P d i)
       = array_get day_names (getDay P (Date (daily.time d ! i)))
   \<and> (getDay P (date (forecast_entry_at P d i)) = Finite (of_nat n) \<and> n < 7 \<longrightarrow>
        dayName (forecast_entry_at P d i) = Some (day_names ! n))"
proof -
  have days: "processForecast P d = map (forecast_entry_at P d) [1 ..< length (daily.time d)]"
    by (rule processForecast_eq)
  have none: "length (daily.time d) = 0 \<longrightarrow> processForecast P d = []"
    by (simp add: processForecast_eq)
  have count: "0 < length (daily.time d) \<longrightarrow>
        Suc (length (processForecast P d)) = length (daily.time d)"
    by (simp add: processForecast_eq)
  have five: "length (daily.time d) = 5 \<longrightarrow>
        processForecast P d
          = [forecast_entry_at P d 1, forecast_entry_at P d 2,
             forecast_entry_at P d 3, forecast_entry_at P d 4]"
    by (simp add: processForecast_eq upt_1_5)
  have temps:
    "maxTemp (forecast_entry_at P d i) = Math_round (ToNumber (cell_at (temperature_2m_max d) i))"
    "minTemp (forecast_entry_at P d i) = Math_round (ToNumber (cell_at (temperature_2m_min d) i))"
    "feelsLikeMax (forecast_entry_at P d i)
       = Math_round (ToNumber (cell_at (apparent_temperature_max d) i))"
    "feelsLikeMin (forecast_entry_at P d i)
       = Math_round (ToNumber (cell_at (apparent_temperature_min d) i))"
    by (simp_all add: forecast_entry_at_def round_cell_def Let_def)
  have fields:
    "maxTemp (forecast_entry_at P d i) = round_cell (cell_at (temperature_2m_max d) i)"
    "minTemp (forecast_entry_at P d i) = round_cell (cell_at (temperature_2m_min d) i)"
    "feelsLikeMax (forecast_entry_at P d i) = round_cell (cell_at (apparent_temperature_max d) i)"
    "feelsLikeMin (forecast_entry_at P d i) = round_cell (cell_at (apparent_temperature_min d) i)"
    by (simp_all add: forecast_entry_at_def Let_def)
  have rounded_max: "cell_at (temperature_2m_max d) i = CNum (Finite hi) \<longrightarrow>
        maxTemp (forecast_entry_at P d i) = Finite (of_int \<lfloor>hi + 1 / 2\<rfloor>)
        \<and> \<bar>hi - of_int \<lfloor>hi + 1 / 2\<rfloor>\<bar> \<le> 1 / 2"
    unfolding fields using round_cell_Finite [of _ hi] by blast
  have rounded_min: "cell_at (temperature_2m_min d) i = CNum (Finite lo) \<longrightarrow>
        minTemp (forecast_entry_at P d i) = Finite (of_int \<lfloor>lo + 1 / 2\<rfloor>)
        \<and> \<bar>lo - of_int \<lfloor>lo + 1 / 2\<rfloor>\<bar> \<le> 1 / 2"
    unfolding fields using round_cell_Finite [of _ lo] by blast
  have rounded_fmax: "cell_at (apparent_temperature_max d) i = CNum (Finite fhi) \<longrightarrow>
        feelsLikeMax (forecast_entry_at P d i) = Finite (of_int \<lfloor>fhi + 1 / 2\<rfloor>)
        \<and> \<bar>fhi - of_int \<lfloor>fhi + 1 / 2\<rfloor>\<bar> \<le> 1 / 2"
    unfolding fields using round_cell_Finite [of _ fhi] by blast
  have rounded_fmin: "cell_at (apparent_temperature_min d) i = CNum (Finite flo) \<longrightarrow>
        feelsLikeMin (forecast_entry_at P d i) = Finite (of_int \<lfloor>flo + 1 / 2\<rfloor>)
        \<and> \<bar>flo - of_int \<lfloor>flo + 1 / 2\<rfloor>\<bar> \<le> 1 / 2"
    unfolding fields using round_cell_Finite [of _ flo] by blast
  have dry: "cell_at (precipitation_sum d) i = CUndefined
        \<or> cell_at (precipitation_sum d) i = CNull
        \<longrightarrow> precipitation (forecast_entry_at P d i) = Finite 0"
    by (auto simp: forecast_entry_at_def Let_def)
  have wet: "cell_at (precipitation_sum d) i = CNum (Finite rain) \<and> rain \<noteq> 0
        \<longrightarrow> precipitation (forecast_entry_at P d i) = Finite rain"
    by (simp add: forecast_entry_at_def Let_def)
  have dt: "date (forecast_entry_at P d i) = Date (daily.time d ! i)"
    by (simp add: forecast_entry_at_def Let_def)
  have lookup: "dayName (forecast_entry_at P d i)
       = array_get day_names (getDay P (Date (daily.time d ! i)))"
    by (simp add: forecast_entry_at_def Let_def getDayName_array)
  have name: "getDay P (date (forecast_entry_at P d i)) = Finite (of_nat n) \<and> n < 7 \<longrightarrow>
        dayName (forecast_entry_at P d i) = Some (day_names ! n)"
    using getDayName_table [of P "Date (daily.time d ! i)" n]
    by (simp add: forecast_entry_at_def Let_def)
  have nearest: "Math_round (Finite q) = Finite (of_int \<lfloor>q + 1 / 2\<rfloor>)"
    "\<bar>q - of_int \<lfloor>q + 1 / 2\<rfloor>\<bar> \<le> 1 / 2"
    using Math_round_nearest [of q] by simp_all
  show ?thesis
    by (intro conjI days none count five temps nearest rounded_max rounded_min
          rounded_fmax rounded_fmin dry wet dt lookup name)
qed

theorem processForecast_days_witness:
  "length (daily.time sample_daily) = 5
   \<and> cell_at (temperature_2m_max sample_daily) 1 = CNum (Finite 50.5)
   \<and> cell_at (temperature_2m_min sample_daily) 1 = CNum (Finite (- 2.5))
   \<and> cell_at (apparent_temperature_max sample_daily) 1 = CNum (Finite 48)
   \<and> cell_at (apparent_temperature_min sample_daily) 1 = CNum (Finite (- 5))
   \<and> cell_at (precipitation_sum sample_daily) 1 = CNull
   \<and> cell_at (precipitation_sum rainy_daily) 1 = CNum (Finite 3.2)
   \<and> getDay sample_platform (date (forecast_entry_at sample_platform sample_daily 1))
       = Finite (of_nat 2)
   \<and> length (processForecast sample_platform sample_daily) = 4
   \<and> maxTemp (forecast_entry_at sample_platform sample_daily 1) = Finite 51
   \<and> minTemp (forecast_entry_at sample_platform sample_daily 1) = Finite (- 2)
   \<and> feelsLikeMax (forecast_entry_at sample_platform sample_daily 1) = Finite 48
   \<and> feelsLikeMin (forecast_entry_at sample_platform sample_daily 1) = Finite (- 5)
   \<and> precipitation (forecast_entry_at sample_platform sample_daily 1) = Finite 0
   \<and> precipitation (forecast_entry_at sample_platform rainy_daily 1) = Finite 3.2
   \<and> dayName (forecast_entry_at sample_platform sample_daily 1) = Some (str ''Tuesday'')"
proof -
  have len: "length (daily.time sample_daily) = 5"
    by (simp add: sample_daily_def)
  have cells: "cell_at (temperature_2m_max sample_daily) 1 = CNum (Finite 50.5)"
    "cell_at (temperature_2m_min sample_daily) 1 = CNum (Finite (- 2.5))"
    "cell_at (apparent_temperature_max sample_daily) 1 = CNum (Finite 48)"
    "cell_at (apparent_temperature_min sample_daily) 1 = CNum (Finite (- 5))"
    "cell_at (precipitation_sum sample_daily) 1 = CNull"
    by (simp_all add: sample_daily_def cell_at_def)
  have wet: "cell_at (precipitation_sum rainy_daily) 1 = CNum (Finite 3.2)"
    and nz: "(3.2 :: rat) \<noteq> 0"
    by (simp_all add: rainy_daily_def cell_at_def)
  have day: "getDay sample_platform (date (forecast_entry_at sample_platform sample_daily 1))
       = Finite (of_nat 2)"
    by (simp add: sample_platform_def)
  have floors: "\<lfloor>(505 / 10 :: rat) + 1 / 2\<rfloor> = 51" "\<lfloor>(- (25 / 10) :: rat) + 1 / 2\<rfloor> = - 2"
    "\<lfloor>(48 :: rat) + 1 / 2\<rfloor> = 48" "\<lfloor>(- 5 :: rat) + 1 / 2\<rfloor> = - 5"
    by (simp_all add: floor_unique)
  from processForecast_days [where P = sample_platform and d = sample_daily and i = 1
      and n = 2 and hi = "50.5" and lo = "- 2.5" and fhi = 48 and flo = "- 5"]
  have dry: "length (processForecast sample_platform sample_daily) = 4
      \<and> maxTemp (forecast_entry_at sample_platform sample_daily 1) = Finite 51
      \<and> minTemp (forecast_entry_at sample_platform sample_daily 1) = Finite (- 2)
      \<and> feelsLikeMax (forecast_entry_at sample_platform sample_daily 1) = Finite 48
      \<and> feelsLikeMin (forecast_entry_at sample_platform sample_daily 1) = Finite (- 5)
      \<and> precipitation (forecast_entry_at sample_platform sample_daily 1) = Finite 0
      \<and> dayName (forecast_entry_at sample_platform sample_daily 1) = Some (str ''Tuesday'')"
    using len cells day floors by (simp add: day_names_def)
  from processForecast_days [where P = sample_platform and d = rainy_daily and i = 1
      and rain = "3.2"]
  have rainy: "precipitation (forecast_entry_at sample_platform rainy_daily 1) = Finite 3.2"
    using wet nz by simp
  from len cells wet day dry rainy show ?thesis
    by simp
qed

section \<open>Properties of the weather service\<close>

subsection \<open>Messages that the catch blocks let through\<close>

lemma is_prefix_append: "is_prefix p (p @ r)"
  by (induction p) simp_all

lemma js_includes_Nil: "js_includes s []"
  by (induction s) simp_all

lemma js_includes_append: "js_includes (p @ r) p"
  by (cases p) (simp_all add: is_prefix_append js_includes_Nil)

lemma no_results_error_passes:
  "js_includes (err_message (no_results_error city)) (str ''No results found'')"
proof -
  have "err_message (no_results_error city)
      = str ''No results found'' @ (str '' for '' @ [0x22] @ city @ [0x22]
            @ str ''. Please check the spelling or try a different city name.'')"
    by (simp add: no_results_error_def Error_def)
  then show ?thesis
    by (simp only: js_includes_append)
qed

lemma invalid_location_error_passes:
  "js_includes (err_message invalid_location_error) (str ''Invalid location'')"
  by (simp add: invalid_location_error_def Error_def)

lemma coordinate_errors_pass:
  "js_includes (err_message invalid_coordinates_error) (str ''Invalid coordinates'')"
  "js_includes (err_message invalid_latitude_error) (str ''Invalid latitude'')"
  "js_includes (err_message invalid_longitude_error) (str ''Invalid longitude'')"
  by (simp_all add: invalid_coordinates_error_def invalid_latitude_error_def
        invalid_longitude_error_def Error_def)

subsection \<open>getWeatherData\<close>

lemma getWeatherData_try_rejects:
  "\<not> (in_range (- 90) 90 lat \<and> in_range (- 180) 180 lon) \<Longrightarrow>
   getWeatherData_try net lat lon = (Inl invalid_coordinates_error, [])
   \<or> getWeatherData_try net lat lon = (Inl invalid_latitude_error, [])
   \<or> getWeatherData_try net lat lon = (Inl invalid_longitude_error, [])"
  by (cases lat; cases lon) (auto simp: getWeatherData_try_def isNaN_def)

lemma getWeatherData_rethrows:
  assumes "getWeatherData_try net lat lon = (Inl e, tr)"
    and "js_includes (err_message e) (str ''Invalid coordinates'')
         \<or> js_includes (err_message e) (str ''Invalid latitude'')
         \<or> js_includes (err_message e) (str ''Invalid longitude'')"
  shows "getWeatherData net lat lon = (Inl e, tr)"
  using assms unfolding getWeatherData_def by simp

text \<open>
  A value that is not finite or lies outside its range is refused with one of
  the three coordinate errors, and nothing is fetched.
\<close>

lemma getWeatherData_rejects:
  assumes "\<not> (in_range (- 90) 90 lat \<and> in_range (- 180) 180 lon)"
  shows "getWeatherData net lat lon = (Inl invalid_coordinates_error, [])
   \<or> getWeatherData net lat lon = (Inl invalid_latitude_error, [])
   \<or> getWeatherData net lat lon = (Inl invalid_longitude_error, [])"
  using getWeatherData_try_rejects [OF assms, of net]
    getWeatherData_rethrows [of net lat lon invalid_coordinates_error "[]"]
    getWeatherData_rethrows [of net lat lon invalid_latitude_error "[]"]
    getWeatherData_rethrows [of net lat lon invalid_longitude_error "[]"]
    coordinate_errors_pass
  by blast

lemma fetchWithRetry_first: "\<exists>tr. snd (fetchWithRetry net u 3) = Fetch u # tr"
  by (simp add: trace_of_three_attempts)

lemma getWeatherData_trace:
  "snd (getWeatherData net lat lon) = snd (getWeatherData_try net lat lon)"
  by (simp add: getWeatherData_def split: prod.splits sum.splits)

text \<open>
  A pair of finite numbers inside the ranges passes the check and the forecast
  is requested, provided neither number is 0.
\<close>

lemma getWeatherData_accepts:
  assumes "in_range (- 90) 90 lat" "in_range (- 180) 180 lon" "lat \<noteq> Finite 0" "lon \<noteq> Finite 0"
  shows "\<exists>tr. snd (getWeatherData net lat lon) = Fetch (forecast_url lat lon) # tr"
proof -
  obtain a b where ab: "lat = Finite a" "lon = Finite b"
    using assms(1,2) by (cases lat; cases lon) simp_all
  have "snd (getWeatherData_try net lat lon) = snd (fetchWithRetry net (forecast_url lat lon) 3)"
    using assms ab by (simp add: getWeatherData_try_def isNaN_def split_beta)
  then show ?thesis
    using fetchWithRetry_first [of net "forecast_url lat lon"]
    by (simp add: getWeatherData_trace)
qed

text \<open>
  Claim C1, at an input where the code departs from it. The point of latitude
  51.4779 and longitude 0 lies inside both ranges, so it should pass the
  coordinate check; the code refuses it with the error for invalid coordinates
  before any network call, because the test \<^verbatim>\<open>!latitude || !longitude\<close> takes the
  number 0 for a missing value. The same happens on the equator.
\<close>

theorem getWeatherData_rejects_zero:
  "in_range (- 90) 90 (Finite 51.4779) \<and> in_range (- 180) 180 (Finite 0)
   \<and> getWeatherData unreachable (Finite 51.4779) (Finite 0)
       = (Inl invalid_coordinates_error, [])
   \<and> in_range (- 90) 90 (Finite 0) \<and> in_range (- 180) 180 (Finite 9.45)
   \<and> getWeatherData unreachable (Finite 0) (Finite 9.45)
       = (Inl invalid_coordinates_error, [])"
  by code_simp

subsection \<open>getCoordinates\<close>

lemma location_of_data_none:
  assumes "get_prop data (str ''results'') = Inr results"
    and "\<not> truthy results \<or> results = JArr []"
  shows "location_of_data pf city data = Inl (no_results_error city)"
  using assms by (auto simp: location_of_data_def bind_err_def)

lemma location_of_data_hit:
  assumes "get_prop data (str ''results'') = Inr (JArr (JObj kvs # rest))"
  shows "location_of_data pf city data =
     (if truthy (obj_field kvs (str ''latitude'')) \<and> truthy (obj_field kvs (str ''longitude''))
         \<and> truthy (obj_field kvs (str ''name''))
      then Inr \<lparr> latitude = parseFloat pf (obj_field kvs (str ''latitude'')),
                 longitude = parseFloat pf (obj_field kvs (str ''longitude'')),
                 name = obj_field kvs (str ''name''),
                 country = js_or (obj_field kvs (str ''country'')) (JStr (str ''Unknown'')),
                 admin1 = js_or (obj_field kvs (str ''admin1'')) JNull \<rparr>
      else Inl invalid_location_error)"
  using assms by (simp add: location_of_data_def bind_err_def)

lemma getCoordinates_try_fetched:
  assumes "validateCityName cityName = Inr city"
    and "fetchWithRetry net (geocoding_url city (str ''1'')) 3 = (Inr (Some r), tr)"
    and "json r = Inr data"
  shows "getCoordinates_try pf net cityName =
           (if well_formed_utf16 city then (location_of_data pf city data, tr)
            else (Inl (JsError (str ''URIError'') (str ''URI malformed'')), []))"
  using assms
  by (simp add: getCoordinates_try_def encodeURIComponent_def bind_err_def response_json_def)

lemma getCoordinates_rethrows:
  assumes "getCoordinates_try pf net cityName = (Inl e, tr)"
    and "js_includes (err_message e) (str ''No results found'')
         \<or> js_includes (err_message e) (str ''Invalid location'')"
  shows "getCoordinates pf net cityName = (Inl e, tr)"
  using assms unfolding getCoordinates_def by simp

lemma getCoordinates_returns:
  assumes "getCoordinates_try pf net cityName = (Inr loc, tr)"
  shows "getCoordinates pf net cityName = (Inr loc, tr)"
  using assms unfolding getCoordinates_def by simp

lemma getCoordinates_success:
  "getCoordinates pf net cityName = (Inr loc, tr) \<longleftrightarrow>
   getCoordinates_try pf net cityName = (Inr loc, tr)"
  by (cases "getCoordinates_try pf net cityName" rule: prod.exhaust [case_product sum.exhaust])
     (auto simp: getCoordinates_def split: sum.splits)

lemma location_of_data_coordinates:
  assumes "location_of_data pf city data = Inr loc"
    and "get_prop data (str ''results'') = Inr results"
    and "get_index results 0 = Inr hit"
    and "get_prop hit (str ''latitude'') = Inr lat"
    and "get_prop hit (str ''longitude'') = Inr lon"
  shows "truthy lat \<and> truthy lon \<and> latitude loc = parseFloat pf lat
         \<and> longitude loc = parseFloat pf lon"
  using assms
  by (auto simp: location_of_data_def bind_err_def split: if_splits sum.splits)

text \<open>
  What the resolver makes of a fetched body: no results when \<^verbatim>\<open>results\<close> is
  missing or empty; otherwise the top result is refused when its latitude,
  longitude or name is falsy (missing, \<^verbatim>\<open>null\<close>, 0, the empty string), and
  else becomes the location, with the defaults for country and region.
\<close>

lemma getCoordinates_no_results:
  assumes valid: "validateCityName cityName = Inr city" and wf: "well_formed_utf16 city"
    and fetched: "fetchWithRetry net (geocoding_url city (str ''1'')) 3 = (Inr (Some r), tr)"
    and body: "json r = Inr data"
    and results: "get_prop data (str ''results'') = Inr results"
    and none: "\<not> truthy results \<or> results = JArr []"
  shows "getCoordinates pf net cityName = (Inl (no_results_error city), tr)"
proof -
  have "getCoordinates_try pf net cityName = (Inl (no_results_error city), tr)"
    using getCoordinates_try_fetched [OF valid fetched body, of pf] wf
      location_of_data_none [OF results none, of pf city]
    by simp
  then show ?thesis
    using no_results_error_passes by (intro getCoordinates_rethrows) simp_all
qed

lemma getCoordinates_hit:
  assumes valid: "validateCityName cityName = Inr city" and wf: "well_formed_utf16 city"
    and fetched: "fetchWithRetry net (geocoding_url city (str ''1'')) 3 = (Inr (Some r), tr)"
    and body: "json r = Inr data"
    and results: "get_prop data (str ''results'') = Inr (JArr (JObj kvs # rest))"
  shows "getCoordinates pf net cityName =
     (if truthy (obj_field kvs (str ''latitude'')) \<and> truthy (obj_field kvs (str ''longitude''))
         \<and> truthy (obj_field kvs (str ''name''))
      then Inr \<lparr> latitude = parseFloat pf (obj_field kvs (str ''latitude'')),
                 longitude = parseFloat pf (obj_field kvs (str ''longitude'')),
                 name = obj_field kvs (str ''name''),
                 country = js_or (obj_field kvs (str ''country'')) (JStr (str ''Unknown'')),
                 admin1 = js_or (obj_field kvs (str ''admin1'')) JNull \<rparr>
      else Inl invalid_location_error, tr)"
proof -
  let ?ok = "truthy (obj_field kvs (str ''latitude'')) \<and> truthy (obj_field kvs (str ''longitude''))
         \<and> truthy (obj_field kvs (str ''name''))"
  let ?loc = "\<lparr> latitude = parseFloat pf (obj_field kvs (str ''latitude'')),
                 longitude = parseFloat pf (obj_field kvs (str ''longitude'')),
                 name = obj_field kvs (str ''name''),
                 country = js_or (obj_field kvs (str ''country'')) (JStr (str ''Unknown'')),
                 admin1 = js_or (obj_field kvs (str ''admin1'')) JNull \<rparr>"
  have tried: "getCoordinates_try pf net cityName = (location_of_data pf city data, tr)"
    using getCoordinates_try_fetched [OF valid fetched body, of pf] wf by simp
  have lod: "location_of_data pf city data = (if ?ok then Inr ?loc else Inl invalid_location_error)"
    by (rule location_of_data_hit [OF results])
  show ?thesis
  proof (cases ?ok)
    case True
    with lod have "location_of_data pf city data = Inr ?loc" by simp
    with tried have "getCoordinates_try pf net cityName = (Inr ?loc, tr)" by simp
    then have "getCoordinates pf net cityName = (Inr ?loc, tr)"
      by (rule getCoordinates_returns)
    with True show ?thesis by simp
  next
    case False
    with lod have "location_of_data pf city data = Inl invalid_location_error" by simp
    with tried have "getCoordinates_try pf net cityName = (Inl invalid_location_error, tr)"
      by simp
    then have "getCoordinates pf net cityName = (Inl invalid_location_error, tr)"
      using invalid_location_error_passes by (intro getCoordinates_rethrows) simp_all
    with False show ?thesis by simp
  qed
qed

text \<open>
  Claim C3, at an input where the code departs from it. The top result of this
  geocoding body has a name, a longitude and the latitude 0, so it lacks none
  of the three fields and should become a location; the code refuses it with
  the error for invalid location data, because the test
  \<^verbatim>\<open>!location.latitude\<close> takes the number 0 for a missing value.
\<close>

theorem getCoordinates_rejects_zero_latitude:
  "getCoordinates parse_nothing (respond_with equator_data) (JStr (str ''Equator''))
     = (Inl invalid_location_error, [Fetch (geocoding_url (str ''Equator'') (str ''1''))])
   \<and> get_prop equator_data (str ''results'')
       = Inr (JArr [JObj [(str ''id'', JNum (Finite 1)),
                          (str ''name'', JStr (str ''Equator'')),
                          (str ''latitude'', JNum (Finite 0)),
                          (str ''longitude'', JNum (Finite 9.45)),
                          (str ''country'', JStr (str ''Gabon''))]])"
  by code_simp

text \<open>
  Claim C2 as stated fails: the resolver checks that the coordinates of the
  top result are there, not that they are in range. For this body it succeeds
  with latitude 123.4 and longitude 200, and the forecast for these coordinates
  is refused with the latitude error.
\<close>

theorem getCoordinates_out_of_range_counterexample:
  "getCoordinates parse_nothing (respond_with far_data) (JStr (str ''Nowhere''))
     = (Inr \<lparr> latitude = Finite 123.4, longitude = Finite 200,
               name = JStr (str ''Nowhere''), country = JStr (str ''Unknown''),
               admin1 = JNull \<rparr>,
        [Fetch (geocoding_url (str ''Nowhere'') (str ''1''))])
   \<and> \<not> in_range (- 90) 90 (Finite 123.4)
   \<and> \<not> in_range (- 180) 180 (Finite 200)
   \<and> getWeatherData unreachable (Finite 123.4) (Finite 200) = (Inl invalid_latitude_error, [])"
  by code_simp

text \<open>
  Claim C2, amended. When the resolver succeeds on a geocoding body whose top
  result carries a numeric latitude in [-90, 90] and a numeric longitude in
  [-180, 180], the location it returns has exactly these coordinates, they are
  in range, and the forecast for them passes the coordinate check: the first
  thing getWeatherData does is to fetch the forecast.
\<close>

theorem getCoordinates_in_range_when_result_is:
  assumes valid: "validateCityName cityName = Inr city"
    and fetched: "fetchWithRetry net (geocoding_url city (str ''1'')) 3 = (Inr (Some r), tr)"
    and body: "json r = Inr data"
    and success: "getCoordinates pf net cityName = (Inr loc, tr')"
    and results: "get_prop data (str ''results'') = Inr results"
    and hit: "get_index results 0 = Inr hit"
    and lat: "get_prop hit (str ''latitude'') = Inr (JNum (Finite a))"
    and lon: "get_prop hit (str ''longitude'') = Inr (JNum (Finite b))"
    and lat_range: "- 90 \<le> a \<and> a \<le> 90"
    and lon_range: "- 180 \<le> b \<and> b \<le> 180"
  shows "latitude loc = Finite a \<and> longitude loc = Finite b
         \<and> in_range (- 90) 90 (latitude loc) \<and> in_range (- 180) 180 (longitude loc)
         \<and> (\<exists>tr''. snd (getWeatherData net' (latitude loc) (longitude loc))
                     = Fetch (forecast_url (Finite a) (Finite b)) # tr'')"
proof -
  have "getCoordinates_try pf net cityName = (Inr loc, tr')"
    using success by (simp add: getCoordinates_success)
  then have "location_of_data pf city data = Inr loc"
    using getCoordinates_try_fetched [OF valid fetched body, of pf]
    by (simp split: if_splits)
  from location_of_data_coordinates [OF this results hit lat lon]
  have coords: "latitude loc = Finite a" "longitude loc = Finite b" and nz: "a \<noteq> 0" "b \<noteq> 0"
    by (simp_all add: parseFloat_def)
  have "\<exists>tr''. snd (getWeatherData net' (Finite a) (Finite b))
                     = Fetch (forecast_url (Finite a) (Finite b)) # tr''"
    using lat_range lon_range nz by (intro getWeatherData_accepts) simp_all
  with coords lat_range lon_range show ?thesis by simp
qed

theorem getCoordinates_in_range_when_result_is_witness:
  "validateCityName (JStr (str ''Paris'')) = Inr (str ''Paris'')
   \<and> (- 90 :: rat) \<le> 48.85341 \<and> (48.85341 :: rat) \<le> 90
   \<and> (- 180 :: rat) \<le> 2.3488 \<and> (2.3488 :: rat) \<le> 180
   \<and> latitude (projr (fst (getCoordinates parse_nothing (respond_with paris_data)
                              (JStr (str ''Paris''))))) = Finite 48.85341
   \<and> hd (snd (getWeatherData unreachable (Finite 48.85341) (Finite 2.3488)))
       = Fetch (forecast_url (Finite 48.85341) (Finite 2.3488))"
proof -
  let ?r = "\<lparr> status = 200, statusText = str ''OK'', json = Inr paris_data \<rparr>"
  let ?u = "geocoding_url (str ''Paris'') (str ''1'')"
  let ?hit = "JObj [(str ''id'', JNum (Finite 2988507)),
                        (str ''name'', JStr (str ''Paris'')),
                        (str ''latitude'', JNum (Finite 48.85341)),
                        (str ''longitude'', JNum (Finite 2.3488)),
                        (str ''country'', JStr (str ''France''))]"
  let ?loc = "\<lparr> latitude = Finite 48.85341, longitude = Finite 2.3488,
               name = JStr (str ''Paris''), country = JStr (str ''France''),
               admin1 = JNull \<rparr>"
  have valid: "validateCityName (JStr (str ''Paris'')) = Inr (str ''Paris'')"
    by code_simp
  have fetched: "fetchWithRetry (respond_with paris_data) ?u 3 = (Inr (Some ?r), [Fetch ?u])"
    by code_simp
  have body: "json ?r = Inr paris_data"
    by simp
  have success: "getCoordinates parse_nothing (respond_with paris_data) (JStr (str ''Paris''))
      = (Inr ?loc, [Fetch ?u])"
    by code_simp
  have results: "get_prop paris_data (str ''results'') = Inr (JArr [?hit])"
    by code_simp
  have hit: "get_index (JArr [?hit]) 0 = Inr ?hit"
    by simp
  have lat: "get_prop ?hit (str ''latitude'') = Inr (JNum (Finite 48.85341))"
    by code_simp
  have lon: "get_prop ?hit (str ''longitude'') = Inr (JNum (Finite 2.3488))"
    by code_simp
  have lat_range: "(- 90 :: rat) \<le> 48.85341 \<and> (48.85341 :: rat) \<le> 90"
    by simp
  have lon_range: "(- 180 :: rat) \<le> 2.3488 \<and> (2.3488 :: rat) \<le> 180"
    by simp
  from getCoordinates_in_range_when_result_is
         [OF valid fetched body success results hit lat lon lat_range lon_range, of unreachable]
  obtain tr'' where "snd (getWeatherData unreachable (Finite 48.85341) (Finite 2.3488))
       = Fetch (forecast_url (Finite 48.85341) (Finite 2.3488)) # tr''"
    by auto
  then show ?thesis
    using valid lat_range lon_range success by simp
qed

subsection \<open>searchCities\<close>

lemma searchCities_returns: "\<exists>v. fst (searchCities net query) = Inr v"
proof -
  obtain r tr where "searchCities_try net query = (r, tr)"
    by (cases "searchCities_try net query")
  then show ?thesis
    by (cases r) (simp_all add: searchCities_def)
qed

lemma searchCities_caught:
  assumes "fst (searchCities_try net query) = Inl e"
  shows "fst (searchCities net query) = Inr (JArr [])"
proof -
  obtain tr where "searchCities_try net query = (Inl e, tr)"
    using assms by (cases "searchCities_try net query") simp
  then show ?thesis
    by (simp add: searchCities_def)
qed

lemma searchCities_invalid:
  "validateCityName query = Inl e \<Longrightarrow>
   searchCities net query = (Inr (JArr []), [Warn (str ''City search failed:'') e])"
  by (simp add: searchCities_def searchCities_try_def)

lemma validateCityName_string: "validateCityName query = Inr c \<Longrightarrow> \<exists>q. query = JStr q"
  by (cases query) (simp_all add: validateCityName_def)

lemma searchCities_try_string:
  "searchCities_try net (JStr q) =
     (case validateCityName (JStr q) of
        Inl error \<Rightarrow> (Inl error, [])
      | Inr validated \<Rightarrow>
          if validated = [] then (Inr (JArr []), [])
          else if \<not> well_formed_utf16 q then
            (Inl (JsError (str ''URIError'') (str ''URI malformed'')), [])
          else
            (bind_err (fst (fetchWithRetry net (geocoding_url q (str ''5'')) 3)) (\<lambda>response.
             bind_err (response_json response) (\<lambda>data.
             bind_err (get_prop data (str ''results'')) (\<lambda>results.
             Inr (js_or results (JArr []))))),
             snd (fetchWithRetry net (geocoding_url q (str ''5'')) 3)))"
  by (simp add: searchCities_try_def encodeURIComponent_def split_beta Let_def split: sum.splits)

lemma validateCityName_nonempty: "validateCityName v = Inr c \<Longrightarrow> c \<noteq> []"
  by (cases v) (auto simp: validateCityName_def Let_def split: if_splits)

lemma searchCities_string_cases:
  "fst (searchCities net (JStr q)) = Inr (JArr [])
   \<or> (\<exists>r data results. fst (fetchWithRetry net (geocoding_url q (str ''5'')) 3) = Inr r
        \<and> response_json r = Inr data \<and> get_prop data (str ''results'') = Inr results
        \<and> fst (searchCities net (JStr q)) = Inr (js_or results (JArr [])))"
proof (cases "fst (searchCities_try net (JStr q))")
  case (Inl e)
  then show ?thesis by (simp add: searchCities_caught)
next
  case (Inr v)
  then have same: "fst (searchCities net (JStr q)) = Inr v"
    by (cases "searchCities_try net (JStr q)") (simp add: searchCities_def)
  from Inr show ?thesis
    unfolding same searchCities_try_string
    by (auto simp: bind_err_def split: sum.splits if_splits)
qed

lemma searchCities_network_failure:
  assumes "fst (fetchWithRetry net (geocoding_url q (str ''5'')) 3) = Inl e"
  shows "fst (searchCities net (JStr q)) = Inr (JArr [])"
  using searchCities_string_cases [of net q] assms by auto

lemma searchCities_data_failure:
  assumes "fst (fetchWithRetry net (geocoding_url q (str ''5'')) 3) = Inr r"
    and "response_json r = Inl e \<or> (\<exists>data. response_json r = Inr data \<and> (\<exists>e. get_prop data (str ''results'') = Inl e))"
  shows "fst (searchCities net (JStr q)) = Inr (JArr [])"
  using searchCities_string_cases [of net q] assms by auto

text \<open>
  Claim C9. A search for suggestions always returns a value and never throws.
  A query that the validator refuses gives the empty array, and the only thing
  done is a warning on the console: nothing is fetched. Whatever is thrown
  inside the \<^verbatim>\<open>try\<close> block gives the empty array; in particular a fetch that
  fails after its retries, a body that cannot be parsed, and a body of which
  \<^verbatim>\<open>results\<close> cannot be read.
\<close>

theorem searchCities_never_throws:
  "(\<exists>v. fst (searchCities net query) = Inr v)
   \<and> (validateCityName query = Inl e \<longrightarrow>
        searchCities net query = (Inr (JArr []), [Warn (str ''City search failed:'') e])
        \<and> filter is_Fetch (snd (searchCities net query)) = [])
   \<and> (fst (searchCities_try net query) = Inl e \<longrightarrow>
        fst (searchCities net query) = Inr (JArr []))
   \<and> (fst (fetchWithRetry net (geocoding_url q (str ''5'')) 3) = Inl e \<longrightarrow>
        fst (searchCities net (JStr q)) = Inr (JArr []))
   \<and> (fst (fetchWithRetry net (geocoding_url q (str ''5'')) 3) = Inr r
        \<and> (response_json r = Inl e
            \<or> (\<exists>data. response_json r = Inr data
                  \<and> (\<exists>e'. get_prop data (str ''results'') = Inl e'))) \<longrightarrow>
        fst (searchCities net (JStr q)) = Inr (JArr []))"
proof -
  have invalid: "validateCityName query = Inl e \<longrightarrow>
        searchCities net query = (Inr (JArr []), [Warn (str ''City search failed:'') e])
        \<and> filter is_Fetch (snd (searchCities net query)) = []"
    by (simp add: searchCities_invalid)
  have caught: "fst (searchCities_try net query) = Inl e \<longrightarrow>
        fst (searchCities net query) = Inr (JArr [])"
    by (simp add: searchCities_caught)
  have network: "fst (fetchWithRetry net (geocoding_url q (str ''5'')) 3) = Inl e \<longrightarrow>
        fst (searchCities net (JStr q)) = Inr (JArr [])"
    using searchCities_network_failure [of net q e] by blast
  have data: "fst (fetchWithRetry net (geocoding_url q (str ''5'')) 3) = Inr r
        \<and> (response_json r = Inl e
            \<or> (\<exists>data. response_json r = Inr data
                  \<and> (\<exists>e'. get_prop data (str ''results'') = Inl e'))) \<longrightarrow>
        fst (searchCities net (JStr q)) = Inr (JArr [])"
    using searchCities_data_failure [of net q r e] by blast
  from searchCities_returns [of net query] invalid caught network data show ?thesis
    by blast
qed

theorem searchCities_never_throws_witness:
  "validateCityName (JStr (str ''<''))
     = Inl (Error (str ''City name must be at least 2 characters long''))
   \<and> searchCities unreachable (JStr (str ''<''))
       = (Inr (JArr []),
          [Warn (str ''City search failed:'')
             (Error (str ''City name must be at least 2 characters long''))])
   \<and> fst (fetchWithRetry unreachable (geocoding_url (str ''Paris'') (str ''5'')) 3)
       = Inl (Error (str ''Network connection failed - please check your internet connection''))
   \<and> fst (searchCities unreachable (JStr (str ''Paris''))) = Inr (JArr [])
   \<and> fst (fetchWithRetry (respond_with JNull) (geocoding_url (str ''Paris'') (str ''5'')) 3)
       = Inr (Some \<lparr> status = 200, statusText = str ''OK'', json = Inr JNull \<rparr>)
   \<and> fst (searchCities (respond_with JNull) (JStr (str ''Paris''))) = Inr (JArr [])"
proof -
  let ?short = "Error (str ''City name must be at least 2 characters long'')"
  let ?down = "Error (str ''Network connection failed - please check your internet connection'')"
  let ?r = "Some \<lparr> status = 200, statusText = str ''OK'', json = Inr JNull \<rparr>"
  have invalid: "validateCityName (JStr (str ''<'')) = Inl ?short"
    by code_simp
  have down: "fst (fetchWithRetry unreachable (geocoding_url (str ''Paris'') (str ''5'')) 3)
       = Inl ?down"
    by code_simp
  have answered:
    "fst (fetchWithRetry (respond_with JNull) (geocoding_url (str ''Paris'') (str ''5'')) 3)
       = Inr ?r"
    by code_simp
  have unreadable: "response_json ?r = Inr JNull"
    "get_prop JNull (str ''results'') = Inl (cannot_read (str ''null'') (str ''results''))"
    by (simp_all add: response_json_def)
  from searchCities_never_throws [where net = unreachable and query = "JStr (str ''<'')" and e = ?short]
  have one: "searchCities unreachable (JStr (str ''<''))
       = (Inr (JArr []), [Warn (str ''City search failed:'') ?short])"
    using invalid by blast
  from searchCities_never_throws [where net = unreachable and q = "str ''Paris''" and e = ?down]
  have two: "fst (searchCities unreachable (JStr (str ''Paris''))) = Inr (JArr [])"
    using down by blast
  from searchCities_never_throws [where net = "respond_with JNull" and q = "str ''Paris''" and r = ?r]
  have three: "fst (searchCities (respond_with JNull) (JStr (str ''Paris''))) = Inr (JArr [])"
    using answered unreadable by blast
  from invalid one down two answered three show ?thesis
    by blast
qed

end
